theory Spec2Isabelle
  imports Main "HOL-Library.Word"
begin

section \<open>Shader interface description: enumerations and token tables\<close>

text \<open>
  The enumerators of \<open>QShaderDescription::VariableType\<close>, as the class documentation
  lists them. The enumerator \<open>Int\<close> is written \<open>Int_t\<close> here.
\<close>

datatype VariableType =
    Unknown
  | Float
  | Vec2
  | Vec3
  | Vec4
  | Mat2
  | Mat2x3
  | Mat2x4
  | Mat3
  | Mat3x2
  | Mat3x4
  | Mat4
  | Mat4x2
  | Mat4x3
  | Int_t
  | Int2
  | Int3
  | Int4
  | Uint
  | Uint2
  | Uint3
  | Uint4
  | Bool
  | Bool2
  | Bool3
  | Bool4
  | Double
  | Double2
  | Double3
  | Double4
  | DMat2
  | DMat2x3
  | DMat2x4
  | DMat3
  | DMat3x2
  | DMat3x4
  | DMat4
  | DMat4x2
  | DMat4x3
  | Sampler1D
  | Sampler2D
  | Sampler2DMS
  | Sampler3D
  | SamplerCube
  | Sampler1DArray
  | Sampler2DArray
  | Sampler2DMSArray
  | Sampler3DArray
  | SamplerCubeArray
  | SamplerRect
  | SamplerBuffer
  | Image1D
  | Image2D
  | Image2DMS
  | Image3D
  | ImageCube
  | Image1DArray
  | Image2DArray
  | Image2DMSArray
  | Image3DArray
  | ImageCubeArray
  | ImageRect
  | ImageBuffer
  | Struct

text \<open>
  The enumerators of \<open>QShaderDescription::ImageFormat\<close>: the ones the image format
  table mentions, in the order of the table.
\<close>

datatype ImageFormat =
    ImageFormatUnknown
  | ImageFormatRgba32f
  | ImageFormatRgba16f
  | ImageFormatR32f
  | ImageFormatRgba8
  | ImageFormatRgba8Snorm
  | ImageFormatRg32f
  | ImageFormatRg16f
  | ImageFormatR11fG11fB10f
  | ImageFormatR16f
  | ImageFormatRgba16
  | ImageFormatRgb10A2
  | ImageFormatRg16
  | ImageFormatRg8
  | ImageFormatR16
  | ImageFormatR8
  | ImageFormatRgba16Snorm
  | ImageFormatRg16Snorm
  | ImageFormatRg8Snorm
  | ImageFormatR16Snorm
  | ImageFormatR8Snorm
  | ImageFormatRgba32i
  | ImageFormatRgba16i
  | ImageFormatRgba8i
  | ImageFormatR32i
  | ImageFormatRg32i
  | ImageFormatRg16i
  | ImageFormatRg8i
  | ImageFormatR16i
  | ImageFormatR8i
  | ImageFormatRgba32ui
  | ImageFormatRgba16ui
  | ImageFormatRgba8ui
  | ImageFormatR32ui
  | ImageFormatRgb10a2ui
  | ImageFormatRg32ui
  | ImageFormatRg16ui
  | ImageFormatRg8ui
  | ImageFormatR16ui
  | ImageFormatR8ui

text \<open>The table \<open>typeTab\<close>: token and enumerator, in the order of the source.\<close>

definition typeTab :: "(string \<times> VariableType) list" where
  "typeTab = [
    (''float'', Float),
    (''vec2'', Vec2),
    (''vec3'', Vec3),
    (''vec4'', Vec4),
    (''mat2'', Mat2),
    (''mat3'', Mat3),
    (''mat4'', Mat4),
    (''struct'', Struct),
    (''sampler1D'', Sampler1D),
    (''sampler2D'', Sampler2D),
    (''sampler2DMS'', Sampler2DMS),
    (''sampler3D'', Sampler3D),
    (''samplerCube'', SamplerCube),
    (''sampler1DArray'', Sampler1DArray),
    (''sampler2DArray'', Sampler2DArray),
    (''sampler2DMSArray'', Sampler2DMSArray),
    (''sampler3DArray'', Sampler3DArray),
    (''samplerCubeArray'', SamplerCubeArray),
    (''samplerRect'', SamplerRect),
    (''samplerBuffer'', SamplerBuffer),
    (''mat2x3'', Mat2x3),
    (''mat2x4'', Mat2x4),
    (''mat3x2'', Mat3x2),
    (''mat3x4'', Mat3x4),
    (''mat4x2'', Mat4x2),
    (''mat4x3'', Mat4x3),
    (''int'', Int_t),
    (''ivec2'', Int2),
    (''ivec3'', Int3),
    (''ivec4'', Int4),
    (''uint'', Uint),
    (''uvec2'', Uint2),
    (''uvec3'', Uint3),
    (''uvec4'', Uint4),
    (''bool'', Bool),
    (''bvec2'', Bool2),
    (''bvec3'', Bool3),
    (''bvec4'', Bool4),
    (''double'', Double),
    (''dvec2'', Double2),
    (''dvec3'', Double3),
    (''dvec4'', Double4),
    (''dmat2'', DMat2),
    (''dmat3'', DMat3),
    (''dmat4'', DMat4),
    (''dmat2x3'', DMat2x3),
    (''dmat2x4'', DMat2x4),
    (''dmat3x2'', DMat3x2),
    (''dmat3x4'', DMat3x4),
    (''dmat4x2'', DMat4x2),
    (''dmat4x3'', DMat4x3),
    (''image1D'', Image1D),
    (''image2D'', Image2D),
    (''image2DMS'', Image2DMS),
    (''image3D'', Image3D),
    (''imageCube'', ImageCube),
    (''image1DArray'', Image1DArray),
    (''image2DArray'', Image2DArray),
    (''image2DMSArray'', Image2DMSArray),
    (''image3DArray'', Image3DArray),
    (''imageCubeArray'', ImageCubeArray),
    (''imageRect'', ImageRect),
    (''imageBuffer'', ImageBuffer)]"

text \<open>
  \<open>typeStr\<close> walks the table from the front and returns the token of the first entry
  whose enumerator is the one asked for; the default-constructed (empty) string when
  the loop runs off the end.
\<close>

fun typeStr_loop :: "(string \<times> VariableType) list \<Rightarrow> VariableType \<Rightarrow> string" where
  "typeStr_loop [] t = []"
| "typeStr_loop ((k, v) # tab) t = (if v = t then k else typeStr_loop tab t)"

definition typeStr :: "VariableType \<Rightarrow> string" where
  "typeStr t = typeStr_loop typeTab t"

text \<open>\<open>mapType\<close> is the same walk by token; \<open>Unknown\<close> when no entry matches.\<close>

fun mapType_loop :: "(string \<times> VariableType) list \<Rightarrow> string \<Rightarrow> VariableType" where
  "mapType_loop [] t = Unknown"
| "mapType_loop ((k, v) # tab) t = (if k = t then v else mapType_loop tab t)"

definition mapType :: "string \<Rightarrow> VariableType" where
  "mapType t = mapType_loop typeTab t"

text \<open>The table \<open>imageFormatTab\<close>, again in the order of the source.\<close>

definition imageFormatTab :: "(string \<times> ImageFormat) list" where
  "imageFormatTab = [
    (''unknown'', ImageFormatUnknown),
    (''rgba32f'', ImageFormatRgba32f),
    (''rgba16'', ImageFormatRgba16f),
    (''r32f'', ImageFormatR32f),
    (''rgba8'', ImageFormatRgba8),
    (''rgba8_snorm'', ImageFormatRgba8Snorm),
    (''rg32f'', ImageFormatRg32f),
    (''rg16f'', ImageFormatRg16f),
    (''r11f_g11f_b10f'', ImageFormatR11fG11fB10f),
    (''r16f'', ImageFormatR16f),
    (''rgba16'', ImageFormatRgba16),
    (''rgb10_a2'', ImageFormatRgb10A2),
    (''rg16'', ImageFormatRg16),
    (''rg8'', ImageFormatRg8),
    (''r16'', ImageFormatR16),
    (''r8'', ImageFormatR8),
    (''rgba16_snorm'', ImageFormatRgba16Snorm),
    (''rg16_snorm'', ImageFormatRg16Snorm),
    (''rg8_snorm'', ImageFormatRg8Snorm),
    (''r16_snorm'', ImageFormatR16Snorm),
    (''r8_snorm'', ImageFormatR8Snorm),
    (''rgba32i'', ImageFormatRgba32i),
    (''rgba16i'', ImageFormatRgba16i),
    (''rgba8i'', ImageFormatRgba8i),
    (''r32i'', ImageFormatR32i),
    (''rg32i'', ImageFormatRg32i),
    (''rg16i'', ImageFormatRg16i),
    (''rg8i'', ImageFormatRg8i),
    (''r16i'', ImageFormatR16i),
    (''r8i'', ImageFormatR8i),
    (''rgba32ui'', ImageFormatRgba32ui),
    (''rgba16ui'', ImageFormatRgba16ui),
    (''rgba8ui'', ImageFormatRgba8ui),
    (''r32ui'', ImageFormatR32ui),
    (''rgb10_a2ui'', ImageFormatRgb10a2ui),
    (''rg32ui'', ImageFormatRg32ui),
    (''rg16ui'', ImageFormatRg16ui),
    (''rg8ui'', ImageFormatRg8ui),
    (''r16ui'', ImageFormatR16ui),
    (''r8ui'', ImageFormatR8ui)]"

fun imageFormatStr_loop :: "(string \<times> ImageFormat) list \<Rightarrow> ImageFormat \<Rightarrow> string" where
  "imageFormatStr_loop [] f = []"
| "imageFormatStr_loop ((k, v) # tab) f = (if v = f then k else imageFormatStr_loop tab f)"

definition imageFormatStr :: "ImageFormat \<Rightarrow> string" where
  "imageFormatStr f = imageFormatStr_loop imageFormatTab f"

fun mapImageFormat_loop :: "(string \<times> ImageFormat) list \<Rightarrow> string \<Rightarrow> ImageFormat" where
  "mapImageFormat_loop [] f = ImageFormatUnknown"
| "mapImageFormat_loop ((k, v) # tab) f = (if k = f then v else mapImageFormat_loop tab f)"

definition mapImageFormat :: "string \<Rightarrow> ImageFormat" where
  "mapImageFormat f = mapImageFormat_loop imageFormatTab f"


section \<open>The JSON values the description is written to and read from\<close>

text \<open>
  The C++ \<open>int\<close> of the description's fields is a 32-bit word, read in two's
  complement by \<open>sint\<close>; the value of a \<open>QFlags\<close> is one too.
\<close>

type_synonym cint = "32 word"

text \<open>
  \<open>QJsonValue\<close>, \<open>QJsonArray\<close>, \<open>QJsonObject\<close> and \<open>QJsonDocument\<close> belong to
  the JSON library the serializer is written against; the library is not among the
  sources, and what follows is the behaviour its documentation gives for the calls
  the serializer makes. A number of a JSON value is a
  double: \<open>Whole i\<close> stands for a double whose value is the integer \<open>i\<close>,
  \<open>Fractional\<close> for every other double; this is all that \<open>toInt\<close> looks at. An
  object is a list of key/value pairs in which no key occurs twice, an array a list of
  values.
\<close>

datatype jdouble = Whole int | Fractional

datatype QJsonValue =
    JNull
  | JBool bool
  | JDouble jdouble
  | JString string
  | JArray "QJsonValue list"
  | JObject "(string \<times> QJsonValue) list"
  | JUndefined

type_synonym QJsonArray = "QJsonValue list"
type_synonym QJsonObject = "(string \<times> QJsonValue) list"

datatype QJsonDocument = DocNull | DocArray QJsonArray | DocObject QJsonObject

text \<open>\<open>obj[key] = value\<close>: the value of an existing key is replaced, a new key is added.\<close>

fun obj_insert :: "QJsonObject \<Rightarrow> string \<Rightarrow> QJsonValue \<Rightarrow> QJsonObject" where
  "obj_insert [] k v = [(k, v)]"
| "obj_insert ((k', v') # obj) k v =
     (if k' = k then (k, v) # obj else (k', v') # obj_insert obj k v)"

text \<open>\<open>obj[key]\<close> on a constant object: the undefined value when the key is missing.\<close>

fun obj_value :: "QJsonObject \<Rightarrow> string \<Rightarrow> QJsonValue" where
  "obj_value [] k = JUndefined"
| "obj_value ((k', v') # obj) k = (if k' = k then v' else obj_value obj k)"

fun obj_contains :: "QJsonObject \<Rightarrow> string \<Rightarrow> bool" where
  "obj_contains [] k = False"
| "obj_contains ((k', v') # obj) k = (k' = k \<or> obj_contains obj k)"

text \<open>
  The conversions of a value return a default when the value has another type:
  the empty string, 0, false, the empty array, the empty object. \<open>toInt\<close> also
  returns 0 for a double that is not an integer of the range of \<open>int\<close>.
\<close>

definition toString :: "QJsonValue \<Rightarrow> string" where
  "toString v = (case v of JString s \<Rightarrow> s | _ \<Rightarrow> [])"

definition toInt :: "QJsonValue \<Rightarrow> cint" where
  "toInt v = (case v of
       JDouble (Whole i) \<Rightarrow> if - (2 ^ 31) \<le> i \<and> i < 2 ^ 31 then word_of_int i else 0
     | _ \<Rightarrow> 0)"

definition toBool :: "QJsonValue \<Rightarrow> bool" where
  "toBool v = (case v of JBool b \<Rightarrow> b | _ \<Rightarrow> False)"

definition toArray :: "QJsonValue \<Rightarrow> QJsonArray" where
  "toArray v = (case v of JArray a \<Rightarrow> a | _ \<Rightarrow> [])"

definition toObject :: "QJsonValue \<Rightarrow> QJsonObject" where
  "toObject v = (case v of JObject obj \<Rightarrow> obj | _ \<Rightarrow> [])"

text \<open>The value made from an \<open>int\<close>: the double of that integer.\<close>

definition fromInt :: "cint \<Rightarrow> QJsonValue" where
  "fromInt n = JDouble (Whole (sint n))"

text \<open>\<open>doc.isNull()\<close> and \<open>doc.object()\<close> of a document.\<close>

definition isNull :: "QJsonDocument \<Rightarrow> bool" where
  "isNull doc = (doc = DocNull)"

definition object :: "QJsonDocument \<Rightarrow> QJsonObject" where
  "object doc = (case doc of DocObject obj \<Rightarrow> obj | _ \<Rightarrow> [])"

section \<open>The description and its parts\<close>

text \<open>
  The structs of \<open>QShaderDescription\<close>, with the fields the serializer reads and
  writes. The fields carry a prefix naming their struct. The structs are declared in
  the class header, which is not among the sources, and so are the values that a
  default-constructed struct holds.
\<close>

record InOutVariable =
  io_name :: string
  io_type :: VariableType
  io_location :: cint
  io_binding :: cint
  io_descriptorSet :: cint
  io_imageFormat :: ImageFormat
  io_imageFlags :: cint

text \<open>
  Modelled from the spec: a default-constructed \<open>InOutVariable\<close> (its declaration is
  in the missing header). Location, binding and descriptor set are -1, the image
  format is the unknown one, the image flags are 0, the type is \<open>Unknown\<close>.
\<close>

definition InOutVariable_default :: InOutVariable where
  "InOutVariable_default = \<lparr> io_name = [], io_type = Unknown, io_location = - 1,
     io_binding = - 1, io_descriptorSet = - 1, io_imageFormat = ImageFormatUnknown,
     io_imageFlags = 0 \<rparr>"

datatype BlockVariable = BlockVariable
  (bv_name: string)
  (bv_type: VariableType)
  (bv_offset: cint)
  (bv_size: cint)
  (bv_arrayDims: "cint list")
  (bv_arrayStride: cint)
  (bv_matrixStride: cint)
  (bv_matrixIsRowMajor: bool)
  (bv_structMembers: "BlockVariable list")

text \<open>
  Modelled from the spec: a default-constructed \<open>BlockVariable\<close> (its declaration is
  in the missing header). Offset, size and the two strides are 0, row-major is false,
  and there are no array dimensions and no struct members.
\<close>

definition BlockVariable_default :: BlockVariable where
  "BlockVariable_default = BlockVariable [] Unknown 0 0 [] 0 0 False []"

record UniformBlock =
  ub_blockName :: string
  ub_structName :: string
  ub_size :: cint
  ub_binding :: cint
  ub_descriptorSet :: cint
  ub_members :: "BlockVariable list"

text \<open>
  Modelled from the spec: a default-constructed \<open>UniformBlock\<close> (its declaration is
  in the missing header). The size is 0, binding and descriptor set are -1.
\<close>

definition UniformBlock_default :: UniformBlock where
  "UniformBlock_default = \<lparr> ub_blockName = [], ub_structName = [], ub_size = 0,
     ub_binding = - 1, ub_descriptorSet = - 1, ub_members = [] \<rparr>"

record PushConstantBlock =
  pc_name :: string
  pc_size :: cint
  pc_members :: "BlockVariable list"

text \<open>
  Modelled from the spec: a default-constructed \<open>PushConstantBlock\<close> (its declaration
  is in the missing header). The size is 0.
\<close>

definition PushConstantBlock_default :: PushConstantBlock where
  "PushConstantBlock_default = \<lparr> pc_name = [], pc_size = 0, pc_members = [] \<rparr>"

record StorageBlock =
  sb_blockName :: string
  sb_instanceName :: string
  sb_knownSize :: cint
  sb_binding :: cint
  sb_descriptorSet :: cint
  sb_members :: "BlockVariable list"

text \<open>
  Modelled from the spec: a default-constructed \<open>StorageBlock\<close> (its declaration is
  in the missing header). The known size is 0, binding and descriptor set are -1.
\<close>

definition StorageBlock_default :: StorageBlock where
  "StorageBlock_default = \<lparr> sb_blockName = [], sb_instanceName = [], sb_knownSize = 0,
     sb_binding = - 1, sb_descriptorSet = - 1, sb_members = [] \<rparr>"

text \<open>The private data of a description: its seven collections.\<close>

record QShaderDescriptionPrivate =
  inVars :: "InOutVariable list"
  outVars :: "InOutVariable list"
  uniformBlocks :: "UniformBlock list"
  pushConstantBlocks :: "PushConstantBlock list"
  storageBlocks :: "StorageBlock list"
  combinedImageSamplers :: "InOutVariable list"
  storageImages :: "InOutVariable list"

text \<open>A newly constructed description: every collection is empty.\<close>

definition QShaderDescription_new :: QShaderDescriptionPrivate where
  "QShaderDescription_new = \<lparr> inVars = [], outVars = [], uniformBlocks = [],
     pushConstantBlocks = [], storageBlocks = [], combinedImageSamplers = [],
     storageImages = [] \<rparr>"

definition isValid :: "QShaderDescriptionPrivate \<Rightarrow> bool" where
  "isValid d \<longleftrightarrow> inVars d \<noteq> [] \<or> outVars d \<noteq> []
     \<or> uniformBlocks d \<noteq> [] \<or> pushConstantBlocks d \<noteq> [] \<or> storageBlocks d \<noteq> []
     \<or> combinedImageSamplers d \<noteq> [] \<or> storageImages d \<noteq> []"

subsection \<open>The keys of the document\<close>

definition nameKey :: string where "nameKey = ''name''"
definition typeKey :: string where "typeKey = ''type''"
definition locationKey :: string where "locationKey = ''location''"
definition bindingKey :: string where "bindingKey = ''binding''"
definition setKey :: string where "setKey = ''set''"
definition imageFormatKey :: string where "imageFormatKey = ''imageFormat''"
definition imageFlagsKey :: string where "imageFlagsKey = ''imageFlags''"
definition offsetKey :: string where "offsetKey = ''offset''"
definition arrayDimsKey :: string where "arrayDimsKey = ''arrayDims''"
definition arrayStrideKey :: string where "arrayStrideKey = ''arrayStride''"
definition matrixStrideKey :: string where "matrixStrideKey = ''matrixStride''"
definition matrixRowMajorKey :: string where "matrixRowMajorKey = ''matrixRowMajor''"
definition structMembersKey :: string where "structMembersKey = ''structMembers''"
definition membersKey :: string where "membersKey = ''members''"
definition inputsKey :: string where "inputsKey = ''inputs''"
definition outputsKey :: string where "outputsKey = ''outputs''"
definition uniformBlocksKey :: string where "uniformBlocksKey = ''uniformBlocks''"
definition blockNameKey :: string where "blockNameKey = ''blockName''"
definition structNameKey :: string where "structNameKey = ''structName''"
definition instanceNameKey :: string where "instanceNameKey = ''instanceName''"
definition sizeKey :: string where "sizeKey = ''size''"
definition knownSizeKey :: string where "knownSizeKey = ''knownSize''"
definition pushConstantBlocksKey :: string where "pushConstantBlocksKey = ''pushConstantBlocks''"
definition storageBlocksKey :: string where "storageBlocksKey = ''storageBlocks''"
definition combinedImageSamplersKey :: string where
  "combinedImageSamplersKey = ''combinedImageSamplers''"
definition storageImagesKey :: string where "storageImagesKey = ''storageImages''"

lemmas key_defs = nameKey_def typeKey_def locationKey_def bindingKey_def setKey_def
  imageFormatKey_def imageFlagsKey_def offsetKey_def arrayDimsKey_def arrayStrideKey_def
  matrixStrideKey_def matrixRowMajorKey_def structMembersKey_def membersKey_def
  inputsKey_def outputsKey_def uniformBlocksKey_def blockNameKey_def structNameKey_def
  instanceNameKey_def sizeKey_def knownSizeKey_def pushConstantBlocksKey_def
  storageBlocksKey_def combinedImageSamplersKey_def storageImagesKey_def

subsection \<open>Writing: \<open>addDeco\<close>, \<open>inOutObject\<close>, \<open>blockMemberObject\<close>, \<open>makeDoc\<close>\<close>

definition addDeco :: "QJsonObject \<Rightarrow> InOutVariable \<Rightarrow> QJsonObject" where
  "addDeco obj0 v =
    (let obj1 = (if 0 \<le> sint (io_location v)
                 then obj_insert obj0 locationKey (fromInt (io_location v)) else obj0);
         obj2 = (if 0 \<le> sint (io_binding v)
                 then obj_insert obj1 bindingKey (fromInt (io_binding v)) else obj1);
         obj3 = (if 0 \<le> sint (io_descriptorSet v)
                 then obj_insert obj2 setKey (fromInt (io_descriptorSet v)) else obj2);
         obj4 = (if io_imageFormat v \<noteq> ImageFormatUnknown
                 then obj_insert obj3 imageFormatKey (JString (imageFormatStr (io_imageFormat v)))
                 else obj3);
         obj5 = (if io_imageFlags v \<noteq> 0
                 then obj_insert obj4 imageFlagsKey (fromInt (io_imageFlags v)) else obj4)
     in obj5)"

definition inOutObject :: "InOutVariable \<Rightarrow> QJsonObject" where
  "inOutObject v =
    (let obj = [];
         obj = obj_insert obj nameKey (JString (io_name v));
         obj = obj_insert obj typeKey (JString (typeStr (io_type v)))
     in addDeco obj v)"

fun blockMemberObject :: "BlockVariable \<Rightarrow> QJsonObject" where
  "blockMemberObject (BlockVariable name type offset sz arrayDims arrayStride matrixStride
       matrixIsRowMajor structMembers) =
    (let obj = [];
         obj = obj_insert obj nameKey (JString name);
         obj = obj_insert obj typeKey (JString (typeStr type));
         obj = obj_insert obj offsetKey (fromInt offset);
         obj = obj_insert obj sizeKey (fromInt sz);
         obj = (if arrayDims \<noteq> []
                then obj_insert obj arrayDimsKey (JArray (map fromInt arrayDims)) else obj);
         obj = (if arrayStride \<noteq> 0
                then obj_insert obj arrayStrideKey (fromInt arrayStride) else obj);
         obj = (if matrixStride \<noteq> 0
                then obj_insert obj matrixStrideKey (fromInt matrixStride) else obj);
         obj = (if matrixIsRowMajor
                then obj_insert obj matrixRowMajorKey (JBool True) else obj);
         obj = (if structMembers \<noteq> []
                then obj_insert obj structMembersKey
                       (JArray (map (\<lambda>sv. JObject (blockMemberObject sv)) structMembers))
                else obj)
     in obj)"


text \<open>
  The loops of \<open>makeDoc\<close> append one object per element; the bodies of the three
  block loops are \<open>uniformBlockObject\<close>, \<open>pushConstantBlockObject\<close> and
  \<open>storageBlockObject\<close>. The objects of the combined image samplers and of the
  storage images are built in place, with the statements of \<open>inOutObject\<close>.
\<close>

definition uniformBlockObject :: "UniformBlock \<Rightarrow> QJsonObject" where
  "uniformBlockObject b =
    (let juniformBlock = [];
         juniformBlock = obj_insert juniformBlock blockNameKey (JString (ub_blockName b));
         juniformBlock = obj_insert juniformBlock structNameKey (JString (ub_structName b));
         juniformBlock = obj_insert juniformBlock sizeKey (fromInt (ub_size b));
         juniformBlock = (if 0 \<le> sint (ub_binding b)
            then obj_insert juniformBlock bindingKey (fromInt (ub_binding b))
            else juniformBlock);
         juniformBlock = (if 0 \<le> sint (ub_descriptorSet b)
            then obj_insert juniformBlock setKey (fromInt (ub_descriptorSet b))
            else juniformBlock);
         members = map (\<lambda>v. JObject (blockMemberObject v)) (ub_members b)
     in obj_insert juniformBlock membersKey (JArray members))"

definition pushConstantBlockObject :: "PushConstantBlock \<Rightarrow> QJsonObject" where
  "pushConstantBlockObject b =
    (let jpushConstantBlock = [];
         jpushConstantBlock = obj_insert jpushConstantBlock nameKey (JString (pc_name b));
         jpushConstantBlock = obj_insert jpushConstantBlock sizeKey (fromInt (pc_size b));
         members = map (\<lambda>v. JObject (blockMemberObject v)) (pc_members b)
     in obj_insert jpushConstantBlock membersKey (JArray members))"

definition storageBlockObject :: "StorageBlock \<Rightarrow> QJsonObject" where
  "storageBlockObject b =
    (let jstorageBlock = [];
         jstorageBlock = obj_insert jstorageBlock blockNameKey (JString (sb_blockName b));
         jstorageBlock = obj_insert jstorageBlock instanceNameKey (JString (sb_instanceName b));
         jstorageBlock = obj_insert jstorageBlock knownSizeKey (fromInt (sb_knownSize b));
         jstorageBlock = (if 0 \<le> sint (sb_binding b)
            then obj_insert jstorageBlock bindingKey (fromInt (sb_binding b))
            else jstorageBlock);
         jstorageBlock = (if 0 \<le> sint (sb_descriptorSet b)
            then obj_insert jstorageBlock setKey (fromInt (sb_descriptorSet b))
            else jstorageBlock);
         members = map (\<lambda>v. JObject (blockMemberObject v)) (sb_members b)
     in obj_insert jstorageBlock membersKey (JArray members))"

definition samplerObject :: "InOutVariable \<Rightarrow> QJsonObject" where
  "samplerObject v =
    (let sampler = [];
         sampler = obj_insert sampler nameKey (JString (io_name v));
         sampler = obj_insert sampler typeKey (JString (typeStr (io_type v)))
     in addDeco sampler v)"

definition imageObject :: "InOutVariable \<Rightarrow> QJsonObject" where
  "imageObject v =
    (let image = [];
         image = obj_insert image nameKey (JString (io_name v));
         image = obj_insert image typeKey (JString (typeStr (io_type v)))
     in addDeco image v)"

definition makeDoc :: "QShaderDescriptionPrivate \<Rightarrow> QJsonDocument" where
  "makeDoc d =
    (let root = [];
         jinputs = map (\<lambda>v. JObject (inOutObject v)) (inVars d);
         root = (if jinputs \<noteq> [] then obj_insert root inputsKey (JArray jinputs) else root);
         joutputs = map (\<lambda>v. JObject (inOutObject v)) (outVars d);
         root = (if joutputs \<noteq> [] then obj_insert root outputsKey (JArray joutputs) else root);
         juniformBlocks = map (\<lambda>b. JObject (uniformBlockObject b)) (uniformBlocks d);
         root = (if juniformBlocks \<noteq> []
                 then obj_insert root uniformBlocksKey (JArray juniformBlocks) else root);
         jpushConstantBlocks =
           map (\<lambda>b. JObject (pushConstantBlockObject b)) (pushConstantBlocks d);
         root = (if jpushConstantBlocks \<noteq> []
                 then obj_insert root pushConstantBlocksKey (JArray jpushConstantBlocks)
                 else root);
         jstorageBlocks = map (\<lambda>b. JObject (storageBlockObject b)) (storageBlocks d);
         root = (if jstorageBlocks \<noteq> []
                 then obj_insert root storageBlocksKey (JArray jstorageBlocks) else root);
         jcombinedSamplers = map (\<lambda>v. JObject (samplerObject v)) (combinedImageSamplers d);
         root = (if jcombinedSamplers \<noteq> []
                 then obj_insert root combinedImageSamplersKey (JArray jcombinedSamplers)
                 else root);
         jstorageImages = map (\<lambda>v. JObject (imageObject v)) (storageImages d);
         root = (if jstorageImages \<noteq> []
                 then obj_insert root storageImagesKey (JArray jstorageImages) else root)
     in DocObject root)"

subsection \<open>Reading: \<open>inOutVar\<close>, \<open>blockVar\<close>, \<open>loadDoc\<close>\<close>

text \<open>
  Both readers start from a default-constructed variable and assign the fields the
  object has. In \<open>blockVar\<close> the fields of \<open>BlockVariable_default\<close> are written where
  a key is missing. \<open>blockVar\<close> calls itself on the elements of the array under
  \<open>structMembers\<close>; they are parts of the object, which is why it terminates.
\<close>

definition inOutVar :: "QJsonObject \<Rightarrow> InOutVariable" where
  "inOutVar obj =
    (let var = InOutVariable_default;
         var = var\<lparr>io_name := toString (obj_value obj nameKey)\<rparr>;
         var = var\<lparr>io_type := mapType (toString (obj_value obj typeKey))\<rparr>;
         var = (if obj_contains obj locationKey
                then var\<lparr>io_location := toInt (obj_value obj locationKey)\<rparr> else var);
         var = (if obj_contains obj bindingKey
                then var\<lparr>io_binding := toInt (obj_value obj bindingKey)\<rparr> else var);
         var = (if obj_contains obj setKey
                then var\<lparr>io_descriptorSet := toInt (obj_value obj setKey)\<rparr> else var);
         var = (if obj_contains obj imageFormatKey
                then var\<lparr>io_imageFormat :=
                       mapImageFormat (toString (obj_value obj imageFormatKey))\<rparr>
                else var);
         var = (if obj_contains obj imageFlagsKey
                then var\<lparr>io_imageFlags := toInt (obj_value obj imageFlagsKey)\<rparr> else var)
     in var)"

function blockVar :: "QJsonObject \<Rightarrow> BlockVariable" where
  "blockVar obj = BlockVariable
     (toString (obj_value obj nameKey))
     (mapType (toString (obj_value obj typeKey)))
     (toInt (obj_value obj offsetKey))
     (toInt (obj_value obj sizeKey))
     (if obj_contains obj arrayDimsKey
      then map toInt (toArray (obj_value obj arrayDimsKey)) else [])
     (if obj_contains obj arrayStrideKey then toInt (obj_value obj arrayStrideKey) else 0)
     (if obj_contains obj matrixStrideKey then toInt (obj_value obj matrixStrideKey) else 0)
     (if obj_contains obj matrixRowMajorKey
      then toBool (obj_value obj matrixRowMajorKey) else False)
     (if obj_contains obj structMembersKey
      then map (\<lambda>x. blockVar (toObject x)) (toArray (obj_value obj structMembersKey))
      else [])"
  by pat_completeness auto
termination
proof (relation "measure (size_list (size_prod (\<lambda>_. 0) size))")
  show "wf (measure (size_list (size_prod (\<lambda>_. 0) size)))"
    by simp
next
  fix obj :: QJsonObject and x :: QJsonValue
  let ?m = "size_list (size_prod (\<lambda>_. 0) size) :: QJsonObject \<Rightarrow> nat"
  assume x: "x \<in> set (toArray (obj_value obj structMembersKey))"
  have val: "size (obj_value o' k) \<le> ?m o'" for o' :: QJsonObject and k
    by (induction o') auto
  have elt: "size y < size v" if "y \<in> set (toArray v)" for y v
    using that by (cases v) (auto simp: toArray_def less_Suc_eq_le size_list_estimation')
  have obj: "?m (toObject y) \<le> size y" for y
    by (cases y) (auto simp: toObject_def)
  have "?m (toObject x) \<le> size x"
    by (rule obj)
  also have "size x < size (obj_value obj structMembersKey)"
    using x by (rule elt)
  also have "\<dots> \<le> ?m obj"
    by (rule val)
  finally show "(toObject x, obj) \<in> measure ?m"
    by simp
qed

declare blockVar.simps [simp del]


text \<open>The bodies of the three block loops of \<open>loadDoc\<close>.\<close>

definition uniformBlockOf :: "QJsonObject \<Rightarrow> UniformBlock" where
  "uniformBlockOf ubObj =
    (let ub = UniformBlock_default;
         ub = ub\<lparr>ub_blockName := toString (obj_value ubObj blockNameKey)\<rparr>;
         ub = ub\<lparr>ub_structName := toString (obj_value ubObj structNameKey)\<rparr>;
         ub = ub\<lparr>ub_size := toInt (obj_value ubObj sizeKey)\<rparr>;
         ub = (if obj_contains ubObj bindingKey
               then ub\<lparr>ub_binding := toInt (obj_value ubObj bindingKey)\<rparr> else ub);
         ub = (if obj_contains ubObj setKey
               then ub\<lparr>ub_descriptorSet := toInt (obj_value ubObj setKey)\<rparr> else ub);
         members = toArray (obj_value ubObj membersKey)
     in ub\<lparr>ub_members := ub_members ub @ map (\<lambda>member. blockVar (toObject member)) members\<rparr>)"

definition pushConstantBlockOf :: "QJsonObject \<Rightarrow> PushConstantBlock" where
  "pushConstantBlockOf pcObj =
    (let pc = PushConstantBlock_default;
         pc = pc\<lparr>pc_name := toString (obj_value pcObj nameKey)\<rparr>;
         pc = pc\<lparr>pc_size := toInt (obj_value pcObj sizeKey)\<rparr>;
         members = toArray (obj_value pcObj membersKey)
     in pc\<lparr>pc_members := pc_members pc @ map (\<lambda>member. blockVar (toObject member)) members\<rparr>)"

definition storageBlockOf :: "QJsonObject \<Rightarrow> StorageBlock" where
  "storageBlockOf sbObj =
    (let sb = StorageBlock_default;
         sb = sb\<lparr>sb_blockName := toString (obj_value sbObj blockNameKey)\<rparr>;
         sb = sb\<lparr>sb_instanceName := toString (obj_value sbObj instanceNameKey)\<rparr>;
         sb = sb\<lparr>sb_knownSize := toInt (obj_value sbObj knownSizeKey)\<rparr>;
         sb = (if obj_contains sbObj bindingKey
               then sb\<lparr>sb_binding := toInt (obj_value sbObj bindingKey)\<rparr> else sb);
         sb = (if obj_contains sbObj setKey
               then sb\<lparr>sb_descriptorSet := toInt (obj_value sbObj setKey)\<rparr> else sb);
         members = toArray (obj_value sbObj membersKey)
     in sb\<lparr>sb_members := sb_members sb @ map (\<lambda>member. blockVar (toObject member)) members\<rparr>)"

text \<open>
  \<open>loadDoc\<close> works on the private data of a description, whose reference count is
  \<open>ref\<close>. It returns the data as it leaves them and the warnings it printed. On a
  null document it warns and returns at once. Otherwise it asserts that the data are
  not shared (\<open>AssertionFailed\<close> when they are), clears the seven collections and
  fills them from the keys the root object has. \<open>NullDereference\<close> is the other way
  a call can fail to return: through a null pointer.
\<close>

datatype failure = AssertionFailed | NullDereference

definition loadDoc ::
  "QJsonDocument \<Rightarrow> int \<Rightarrow> QShaderDescriptionPrivate
     \<Rightarrow> failure + (QShaderDescriptionPrivate \<times> string list)" where
  "loadDoc doc ref d =
    (if isNull doc then Inr (d, [''QShaderDescription: JSON document is empty''])
     else if ref \<noteq> 1 then Inl AssertionFailed
     else
      (let d = d\<lparr>inVars := [], outVars := [], uniformBlocks := [],
                 pushConstantBlocks := [], storageBlocks := [],
                 combinedImageSamplers := [], storageImages := []\<rparr>;
           root = object doc;
           d = (if obj_contains root inputsKey
                then d\<lparr>inVars := inVars d
                       @ map (\<lambda>x. inOutVar (toObject x)) (toArray (obj_value root inputsKey))\<rparr>
                else d);
           d = (if obj_contains root outputsKey
                then d\<lparr>outVars := outVars d
                       @ map (\<lambda>x. inOutVar (toObject x)) (toArray (obj_value root outputsKey))\<rparr>
                else d);
           d = (if obj_contains root uniformBlocksKey
                then d\<lparr>uniformBlocks := uniformBlocks d
                       @ map (\<lambda>x. uniformBlockOf (toObject x))
                           (toArray (obj_value root uniformBlocksKey))\<rparr>
                else d);
           d = (if obj_contains root pushConstantBlocksKey
                then d\<lparr>pushConstantBlocks := pushConstantBlocks d
                       @ map (\<lambda>x. pushConstantBlockOf (toObject x))
                           (toArray (obj_value root pushConstantBlocksKey))\<rparr>
                else d);
           d = (if obj_contains root storageBlocksKey
                then d\<lparr>storageBlocks := storageBlocks d
                       @ map (\<lambda>x. storageBlockOf (toObject x))
                           (toArray (obj_value root storageBlocksKey))\<rparr>
                else d);
           d = (if obj_contains root combinedImageSamplersKey
                then d\<lparr>combinedImageSamplers := combinedImageSamplers d
                       @ map (\<lambda>x. inOutVar (toObject x))
                           (toArray (obj_value root combinedImageSamplersKey))\<rparr>
                else d);
           d = (if obj_contains root storageImagesKey
                then d\<lparr>storageImages := storageImages d
                       @ map (\<lambda>x. inOutVar (toObject x))
                           (toArray (obj_value root storageImagesKey))\<rparr>
                else d)
       in Inr (d, [])))"

text \<open>
  The binary form of a document is the work of \<open>QJsonDocument::toBinaryData\<close> and
  \<open>QJsonDocument::fromBinaryData\<close>, which are parameters here; \<open>fromBinaryData\<close>
  returns the null document for data that are not a valid binary document.
  \<open>fromBinaryJson\<close> loads into a newly constructed description, which nothing else
  refers to.
\<close>

definition toBinaryJson ::
  "(QJsonDocument \<Rightarrow> 'bytes) \<Rightarrow> QShaderDescriptionPrivate \<Rightarrow> 'bytes" where
  "toBinaryJson toBinaryData d = toBinaryData (makeDoc d)"

definition fromBinaryJson ::
  "('bytes \<Rightarrow> QJsonDocument) \<Rightarrow> 'bytes
     \<Rightarrow> failure + (QShaderDescriptionPrivate \<times> string list)" where
  "fromBinaryJson fromBinaryData data = loadDoc (fromBinaryData data) 1 QShaderDescription_new"

subsection \<open>Descriptions that come back as they were written\<close>

text \<open>
  \<open>addDeco\<close> writes a location, binding or descriptor set when it is 0 or more, so
  a value is kept when it is -1, which is also what the reader starts from, or not
  negative.
\<close>

definition absentOrSet :: "cint \<Rightarrow> bool" where
  "absentOrSet n \<longleftrightarrow> n = - 1 \<or> 0 \<le> sint n"

text \<open>
  The decorations of a variable are kept when its location, binding and descriptor
  set are, and its image format is not the one whose token the table has twice.
\<close>

definition decorationsKept :: "InOutVariable \<Rightarrow> bool" where
  "decorationsKept v \<longleftrightarrow>
     absentOrSet (io_location v) \<and> absentOrSet (io_binding v)
     \<and> absentOrSet (io_descriptorSet v) \<and> io_imageFormat v \<noteq> ImageFormatRgba16"

definition bindingKept_ub :: "UniformBlock \<Rightarrow> bool" where
  "bindingKept_ub b \<longleftrightarrow> absentOrSet (ub_binding b) \<and> absentOrSet (ub_descriptorSet b)"

definition bindingKept_sb :: "StorageBlock \<Rightarrow> bool" where
  "bindingKept_sb b \<longleftrightarrow> absentOrSet (sb_binding b) \<and> absentOrSet (sb_descriptorSet b)"

text \<open>A description all of whose variables and blocks are kept.\<close>

definition representable :: "QShaderDescriptionPrivate \<Rightarrow> bool" where
  "representable d \<longleftrightarrow>
     (\<forall>v \<in> set (inVars d). decorationsKept v)
     \<and> (\<forall>v \<in> set (outVars d). decorationsKept v)
     \<and> (\<forall>b \<in> set (uniformBlocks d). bindingKept_ub b)
     \<and> (\<forall>b \<in> set (storageBlocks d). bindingKept_sb b)
     \<and> (\<forall>v \<in> set (combinedImageSamplers d). decorationsKept v)
     \<and> (\<forall>v \<in> set (storageImages d). decorationsKept v)"

text \<open>
  The description of the vertex shader of the class documentation, and a description
  with one input whose location is -2.
\<close>

definition vertexShaderExample :: QShaderDescriptionPrivate where
  "vertexShaderExample =
    \<lparr> inVars =
        [InOutVariable_default\<lparr>io_name := ''color'', io_type := Vec3, io_location := 1\<rparr>,
         InOutVariable_default\<lparr>io_name := ''position'', io_type := Vec4, io_location := 0\<rparr>],
      outVars =
        [InOutVariable_default\<lparr>io_name := ''v_color'', io_type := Vec3, io_location := 0\<rparr>],
      uniformBlocks =
        [\<lparr> ub_blockName = ''buf'', ub_structName = ''ubuf'', ub_size = 68, ub_binding = 0,
            ub_descriptorSet = 0,
            ub_members =
              [BlockVariable ''mvp'' Mat4 0 64 [] 0 16 False [],
               BlockVariable ''opacity'' Float 64 4 [] 0 0 False []] \<rparr>],
      pushConstantBlocks = [], storageBlocks = [], combinedImageSamplers = [],
      storageImages = [] \<rparr>"

definition negativeLocationExample :: QShaderDescriptionPrivate where
  "negativeLocationExample =
    \<lparr> inVars =
        [InOutVariable_default\<lparr>io_name := ''color'', io_type := Vec3, io_location := - 2\<rparr>],
      outVars = [], uniformBlocks = [], pushConstantBlocks = [], storageBlocks = [],
      combinedImageSamplers = [], storageImages = [] \<rparr>"


section \<open>The null backend of the rendering hardware interface\<close>

text \<open>
  Resources are referred to by pointers in the source. A swapchain, which the device
  keeps a pointer to, is an address (\<open>None\<close> is the null pointer) into the memory
  \<open>mem\<close> of the device state below; a resource whose fields are only read through
  the pointer is its value.
\<close>

type_synonym addr = nat

record QSize =
  width :: int
  height :: int

text \<open>\<open>QSize::isEmpty\<close>: the width or the height is 0 or less.\<close>

definition isEmpty :: "QSize \<Rightarrow> bool" where
  "isEmpty s \<longleftrightarrow> width s < 1 \<or> height s < 1"

text \<open>
  \<open>QRhiTexture::Format\<close> and the flags of a texture are declared in a header; the
  source names the enumerators \<open>RGBA8\<close>, \<open>UnknownFormat\<close>, \<open>CubeMap\<close> and
  \<open>MipMapped\<close>, and \<open>OtherFormat\<close> and \<open>OtherTextureFlag\<close> stand for the rest.
  A \<open>QFlags\<close> value is the set of the flags it has.
\<close>

datatype Format = UnknownFormat | RGBA8 | OtherFormat nat

datatype TextureFlag = CubeMap | MipMapped | OtherTextureFlag nat

datatype FrameOpResult =
  FrameOpSuccess | FrameOpError | FrameOpSwapChainOutOfDate | FrameOpDeviceLost

record QNullBuffer =
  buf_m_type :: int
  buf_m_usage :: int
  buf_m_size :: int

record QNullRenderBuffer =
  rb_m_type :: int
  rb_m_pixelSize :: QSize
  rb_m_sampleCount :: int
  rb_m_flags :: int

record QNullTexture =
  tex_m_format :: Format
  tex_m_pixelSize :: QSize
  tex_m_sampleCount :: int
  tex_m_flags :: "TextureFlag set"

record QNullSampler =
  smp_m_magFilter :: int
  smp_m_minFilter :: int
  smp_m_mipmapMode :: int
  smp_m_addressU :: int
  smp_m_addressV :: int

record QRhiColorAttachment =
  ca_texture :: "QNullTexture option"
  ca_renderBuffer :: "QNullRenderBuffer option"

record QRhiTextureRenderTargetDescription =
  colorAttachments :: "QRhiColorAttachment list"
  depthStencilBuffer :: "QNullRenderBuffer option"
  depthTexture :: "QNullTexture option"

record QNullRenderTargetData =
  rtd_rp :: "addr option"
  rtd_pixelSize :: QSize

record QNullTextureRenderTarget =
  trt_m_desc :: QRhiTextureRenderTargetDescription
  trt_m_flags :: int
  trt_m_renderPassDesc :: "addr option"
  trt_d :: QNullRenderTargetData

record QNullSwapChain =
  sc_m_currentPixelSize :: QSize
  sc_m_renderPassDesc :: "addr option"
  sc_rt_d :: QNullRenderTargetData
  sc_frameCount :: cint

text \<open>
  What the backend tells the profiler. A call is forwarded only when a profiler is
  attached: \<open>rhiP\<close> is \<open>None\<close> without one, and the list of the calls made so far
  with one.
\<close>

datatype ProfEvent =
    NewBuffer QNullBuffer int int int
  | NewRenderBuffer QNullRenderBuffer bool bool int
  | NewTexture QNullTexture bool int int int
  | ResizeSwapChain QNullSwapChain int int int
  | BeginSwapChainFrame "addr option"
  | EndSwapChainFrame "addr option" cint
  | SwapChainFrameGpuTime "addr option"

type_synonym profiler = "ProfEvent list option"

definition QRHI_PROF_F :: "ProfEvent \<Rightarrow> profiler \<Rightarrow> profiler" where
  "QRHI_PROF_F f rhiP = (case rhiP of None \<Rightarrow> None | Some calls \<Rightarrow> Some (calls @ [f]))"

text \<open>
  The state of the device: the swapchain of the frame being recorded, the profiler,
  and the swapchains in memory.
\<close>

record QRhiNull =
  currentSwapChain :: "addr option"
  rhiP :: profiler
  mem :: "addr \<Rightarrow> QNullSwapChain option"

subsection \<open>The factory functions\<close>

definition createBuffer :: "int \<Rightarrow> int \<Rightarrow> int \<Rightarrow> QNullBuffer" where
  "createBuffer type usage sz = \<lparr> buf_m_type = type, buf_m_usage = usage, buf_m_size = sz \<rparr>"

definition createRenderBuffer :: "int \<Rightarrow> QSize \<Rightarrow> int \<Rightarrow> int \<Rightarrow> QNullRenderBuffer" where
  "createRenderBuffer type pixelSize sampleCount flags =
     \<lparr> rb_m_type = type, rb_m_pixelSize = pixelSize, rb_m_sampleCount = sampleCount,
       rb_m_flags = flags \<rparr>"

definition createTexture :: "Format \<Rightarrow> QSize \<Rightarrow> int \<Rightarrow> TextureFlag set \<Rightarrow> QNullTexture" where
  "createTexture format pixelSize sampleCount flags =
     \<lparr> tex_m_format = format, tex_m_pixelSize = pixelSize, tex_m_sampleCount = sampleCount,
       tex_m_flags = flags \<rparr>"

definition createSampler :: "int \<Rightarrow> int \<Rightarrow> int \<Rightarrow> int \<Rightarrow> int \<Rightarrow> QNullSampler" where
  "createSampler magFilter minFilter mipmapMode u v =
     \<lparr> smp_m_magFilter = magFilter, smp_m_minFilter = minFilter,
       smp_m_mipmapMode = mipmapMode, smp_m_addressU = u, smp_m_addressV = v \<rparr>"

text \<open>
  A new render target or swapchain has no render pass descriptor yet; its size is the
  default-constructed (invalid) \<open>QSize\<close>, and the frame count of a swapchain is 0.
\<close>

definition QSize_default :: QSize where
  "QSize_default = \<lparr> width = - 1, height = - 1 \<rparr>"

definition createTextureRenderTarget ::
  "QRhiTextureRenderTargetDescription \<Rightarrow> int \<Rightarrow> QNullTextureRenderTarget" where
  "createTextureRenderTarget desc flags =
     \<lparr> trt_m_desc = desc, trt_m_flags = flags, trt_m_renderPassDesc = None,
       trt_d = \<lparr> rtd_rp = None, rtd_pixelSize = QSize_default \<rparr> \<rparr>"

definition createSwapChain :: QNullSwapChain where
  "createSwapChain =
     \<lparr> sc_m_currentPixelSize = QSize_default, sc_m_renderPassDesc = None,
       sc_rt_d = \<lparr> rtd_rp = None, rtd_pixelSize = QSize_default \<rparr>, sc_frameCount = 0 \<rparr>"

subsection \<open>\<open>build\<close>\<close>

text \<open>
  Each \<open>build\<close> returns its result together with what it changed: the profiler, or
  the resource itself.
\<close>

definition QNullBuffer_build :: "QNullBuffer \<Rightarrow> profiler \<Rightarrow> bool \<times> profiler" where
  "QNullBuffer_build this p = (True, QRHI_PROF_F (NewBuffer this (buf_m_size this) 1 0) p)"

definition QNullRenderBuffer_build :: "QNullRenderBuffer \<Rightarrow> profiler \<Rightarrow> bool \<times> profiler" where
  "QNullRenderBuffer_build this p = (True, QRHI_PROF_F (NewRenderBuffer this False False 1) p)"

text \<open>
  \<open>qCeil(log2(n))\<close> for an \<open>int\<close> \<open>n\<close> that is at least 1: the least \<open>k\<close> with
  \<open>n \<le> 2 ^ k\<close>.
\<close>

function qCeil_log2 :: "int \<Rightarrow> int" where
  "qCeil_log2 n = (if n \<le> 1 then 0 else 1 + qCeil_log2 ((n + 1) div 2))"
  by pat_completeness auto
termination
  by (relation "measure nat") auto

definition QNullTexture_build :: "QNullTexture \<Rightarrow> profiler \<Rightarrow> bool \<times> profiler" where
  "QNullTexture_build this p =
    (let isCube = CubeMap \<in> tex_m_flags this;
         hasMipMaps = MipMapped \<in> tex_m_flags this;
         sz = (if isEmpty (tex_m_pixelSize this) then \<lparr> width = 1, height = 1 \<rparr>
               else tex_m_pixelSize this);
         mipLevelCount = (if hasMipMaps then qCeil_log2 (max (width sz) (height sz)) + 1 else 1)
     in (True, QRHI_PROF_F (NewTexture this True mipLevelCount (if isCube then 6 else 1) 1) p))"

definition QNullSampler_build :: "QNullSampler \<Rightarrow> bool" where
  "QNullSampler_build this = True"

text \<open>
  The size of a texture render target comes from its first color attachment, which
  is a texture or else a render buffer; the render buffer is dereferenced without a
  check. Without color attachments it comes from the depth-stencil buffer or else
  from the depth texture, if there is one.
\<close>

definition QNullTextureRenderTarget_build ::
  "QNullTextureRenderTarget \<Rightarrow> failure + (bool \<times> QNullTextureRenderTarget)" where
  "QNullTextureRenderTarget_build this =
    (let d = (trt_d this)\<lparr>rtd_rp := trt_m_renderPassDesc this\<rparr>;
         desc = trt_m_desc this
     in case colorAttachments desc of
          first # _ \<Rightarrow>
            (case ca_texture first of
               Some tex \<Rightarrow> Inr (True, this\<lparr>trt_d := d\<lparr>rtd_pixelSize := tex_m_pixelSize tex\<rparr>\<rparr>)
             | None \<Rightarrow>
                (case ca_renderBuffer first of
                   Some rb \<Rightarrow> Inr (True, this\<lparr>trt_d := d\<lparr>rtd_pixelSize := rb_m_pixelSize rb\<rparr>\<rparr>)
                 | None \<Rightarrow> Inl NullDereference))
        | [] \<Rightarrow>
            (case depthStencilBuffer desc of
               Some rb \<Rightarrow> Inr (True, this\<lparr>trt_d := d\<lparr>rtd_pixelSize := rb_m_pixelSize rb\<rparr>\<rparr>)
             | None \<Rightarrow>
                (case depthTexture desc of
                   Some tex \<Rightarrow> Inr (True, this\<lparr>trt_d := d\<lparr>rtd_pixelSize := tex_m_pixelSize tex\<rparr>\<rparr>)
                 | None \<Rightarrow> Inr (True, this\<lparr>trt_d := d\<rparr>))))"

text \<open>
  Shader resource bindings and the two pipelines are created without parameters and
  configured through setters afterwards; \<open>build\<close> looks at none of it.
\<close>

definition QNullShaderResourceBindings_build :: "'srb \<Rightarrow> bool" where
  "QNullShaderResourceBindings_build this = True"

definition QNullGraphicsPipeline_build :: "'ps \<Rightarrow> bool" where
  "QNullGraphicsPipeline_build this = True"

definition QNullComputePipeline_build :: "'ps \<Rightarrow> bool" where
  "QNullComputePipeline_build this = True"

subsection \<open>The swapchain\<close>

definition surfacePixelSize :: "QNullSwapChain \<Rightarrow> QSize" where
  "surfacePixelSize this = \<lparr> width = 1280, height = 720 \<rparr>"

definition buildOrResize :: "QNullSwapChain \<Rightarrow> profiler \<Rightarrow> bool \<times> QNullSwapChain \<times> profiler" where
  "buildOrResize this0 p =
    (let this1 = this0\<lparr>sc_m_currentPixelSize := surfacePixelSize this0\<rparr>;
         this2 = this1\<lparr>sc_rt_d := (sc_rt_d this1)\<lparr>rtd_rp := sc_m_renderPassDesc this1\<rparr>\<rparr>;
         this3 = this2\<lparr>sc_rt_d := (sc_rt_d this2)\<lparr>rtd_pixelSize := sc_m_currentPixelSize this2\<rparr>\<rparr>;
         this4 = this3\<lparr>sc_frameCount := 0\<rparr>
     in (True, this4, QRHI_PROF_F (ResizeSwapChain this4 1 0 1) p))"

subsection \<open>Frames\<close>

text \<open>
  \<open>beginFrame\<close> stores the pointer it is given. \<open>endFrame\<close> adds 1 to the frame
  count of the swapchain it is given, in the arithmetic of \<open>int\<close>, and clears the
  stored pointer. \<open>beginOffscreenFrame\<close> hands out the command buffer of the device
  for offscreen frames and changes nothing.
\<close>

definition beginFrame :: "addr option \<Rightarrow> int \<Rightarrow> QRhiNull \<Rightarrow> FrameOpResult \<times> QRhiNull" where
  "beginFrame swapChain flags st =
    (let st = st\<lparr>currentSwapChain := swapChain\<rparr>;
         st = st\<lparr>rhiP := QRHI_PROF_F (BeginSwapChainFrame swapChain) (rhiP st)\<rparr>
     in (FrameOpSuccess, st))"

definition endFrame ::
  "addr option \<Rightarrow> int \<Rightarrow> QRhiNull \<Rightarrow> failure + (FrameOpResult \<times> QRhiNull)" where
  "endFrame swapChain flags st =
    (case swapChain of
       None \<Rightarrow> Inl NullDereference
     | Some a \<Rightarrow>
        (case mem st a of
           None \<Rightarrow> Inl NullDereference
         | Some swapChainD \<Rightarrow>
            (let st = st\<lparr>rhiP := QRHI_PROF_F
                         (EndSwapChainFrame swapChain (sc_frameCount swapChainD + 1)) (rhiP st)\<rparr>;
                 st = st\<lparr>rhiP := QRHI_PROF_F (SwapChainFrameGpuTime swapChain) (rhiP st)\<rparr>;
                 st = st\<lparr>mem := (mem st)
                         (a \<mapsto> swapChainD\<lparr>sc_frameCount := sc_frameCount swapChainD + 1\<rparr>)\<rparr>;
                 st = st\<lparr>currentSwapChain := None\<rparr>
             in Inr (FrameOpSuccess, st))))"

datatype QRhiCommandBuffer = OffscreenCommandBuffer | SwapChainCommandBuffer addr

definition beginOffscreenFrame :: "QRhiNull \<Rightarrow> (FrameOpResult \<times> QRhiCommandBuffer) \<times> QRhiNull" where
  "beginOffscreenFrame st = ((FrameOpSuccess, OffscreenCommandBuffer), st)"

definition endOffscreenFrame :: "QRhiNull \<Rightarrow> FrameOpResult \<times> QRhiNull" where
  "endOffscreenFrame st = (FrameOpSuccess, st)"

subsection \<open>Readbacks\<close>

record QRhiReadbackDescription =
  rbd_texture :: "QNullTexture option"
  rbd_layer :: int
  rbd_level :: int

text \<open>
  A readback result: the callback to run on completion (\<open>None\<close> when the function
  object is empty), the format, the size, and the bytes.
\<close>

record QRhiReadbackResult =
  rr_completed :: "nat option"
  rr_format :: Format
  rr_pixelSize :: QSize
  rr_data :: "8 word list"

text \<open>The texture operations of an update batch; only readbacks are looked at.\<close>

datatype TextureOp = Read QRhiReadbackDescription QRhiReadbackResult | OtherTextureOp

text \<open>
  Modelled from the spec: \<open>textureFormatInfo\<close>, a function of the device that is not
  part of the backend, computes the size in bytes of an image of a format and a size:
  width times height times the bytes of one texel of the format. The caller's
  variable for it is a \<open>quint32\<close>. The bytes of a texel of each format are the
  parameter \<open>bytesPerTexel\<close>.
\<close>

definition textureFormatInfo :: "(Format \<Rightarrow> int) \<Rightarrow> Format \<Rightarrow> QSize \<Rightarrow> 32 word" where
  "textureFormatInfo bytesPerTexel format sz =
     word_of_int (width sz * height sz * bytesPerTexel format)"

text \<open>
  \<open>QByteArray::fill(ch, size)\<close>, whose \<open>size\<close> is an \<open>int\<close>: the array is resized to
  \<open>size\<close>, or keeps its size when \<open>size\<close> is negative, and every byte is set to
  \<open>ch\<close>.
\<close>

definition fill :: "8 word \<Rightarrow> int \<Rightarrow> 8 word list \<Rightarrow> 8 word list" where
  "fill ch sz bytes = replicate (if sz < 0 then length bytes else nat sz) ch"

text \<open>
  The body of the loop of \<open>resourceUpdate\<close> for one readback. \<open>sizeForMipLevel\<close>,
  which gives the size of a mip level of a texture, is a function of the device and a
  parameter here. The result is the readback result as written and the callback that
  was called, if any.
\<close>

definition readback ::
  "(Format \<Rightarrow> int) \<Rightarrow> (int \<Rightarrow> QSize \<Rightarrow> QSize) \<Rightarrow> QRhiNull
     \<Rightarrow> QRhiReadbackDescription \<Rightarrow> QRhiReadbackResult
     \<Rightarrow> failure + QRhiReadbackResult" where
  "readback bytesPerTexel sizeForMipLevel st rb result =
    (let located =
       (case rbd_texture rb of
          Some tex \<Rightarrow>
            Inr (result\<lparr>rr_format := tex_m_format tex,
                        rr_pixelSize := sizeForMipLevel (rbd_level rb) (tex_m_pixelSize tex)\<rparr>)
        | None \<Rightarrow>
           (case currentSwapChain st of
              None \<Rightarrow> Inl AssertionFailed
            | Some a \<Rightarrow>
               (case mem st a of
                  None \<Rightarrow> Inl NullDereference
                | Some sc \<Rightarrow>
                    Inr (result\<lparr>rr_format := RGBA8,
                                rr_pixelSize := sc_m_currentPixelSize sc\<rparr>))))
     in case located of
          Inl e \<Rightarrow> Inl e
        | Inr result \<Rightarrow>
           (let byteSize = textureFormatInfo bytesPerTexel (rr_format result) (rr_pixelSize result)
            in Inr (result\<lparr>rr_data := fill 0 (sint byteSize) (rr_data result)\<rparr>)))"

text \<open>
  \<open>resourceUpdate\<close> goes through the texture operations of the batch. It returns
  the operations with the readback results filled in, and the completion callbacks
  it called, in the order of the calls. (After the loop the batch goes back to the
  pool it came from; the results stay with the caller.)
\<close>

fun resourceUpdate ::
  "(Format \<Rightarrow> int) \<Rightarrow> (int \<Rightarrow> QSize \<Rightarrow> QSize) \<Rightarrow> QRhiNull \<Rightarrow> TextureOp list
     \<Rightarrow> failure + (TextureOp list \<times> nat list)" where
  "resourceUpdate bytesPerTexel sizeForMipLevel st [] = Inr ([], [])"
| "resourceUpdate bytesPerTexel sizeForMipLevel st (OtherTextureOp # textureOps) =
    (case resourceUpdate bytesPerTexel sizeForMipLevel st textureOps of
       Inl e \<Rightarrow> Inl e
     | Inr (ops, calls) \<Rightarrow> Inr (OtherTextureOp # ops, calls))"
| "resourceUpdate bytesPerTexel sizeForMipLevel st (Read rb result # textureOps) =
    (case readback bytesPerTexel sizeForMipLevel st rb result of
       Inl e \<Rightarrow> Inl e
     | Inr result' \<Rightarrow>
        (case resourceUpdate bytesPerTexel sizeForMipLevel st textureOps of
           Inl e \<Rightarrow> Inl e
         | Inr (ops, calls) \<Rightarrow>
             Inr (Read rb result' # ops,
                  (case rr_completed result' of None \<Rightarrow> [] | Some c \<Rightarrow> [c]) @ calls)))"


subsection \<open>A frame from beginning to end\<close>

text \<open>
  A caller that begins a frame on a swapchain and ends it on the same swapchain: the
  two results and the state after \<open>endFrame\<close>.
\<close>

definition frameCycle ::
  "addr option \<Rightarrow> int \<Rightarrow> int \<Rightarrow> QRhiNull
     \<Rightarrow> failure + (FrameOpResult \<times> FrameOpResult \<times> QRhiNull)" where
  "frameCycle swapChain beginFlags endFlags st =
    (case beginFrame swapChain beginFlags st of
       (r1, st1) \<Rightarrow>
         (case endFrame swapChain endFlags st1 of
            Inl e \<Rightarrow> Inl e
          | Inr (r2, st2) \<Rightarrow> Inr (r1, r2, st2)))"

text \<open>
  A texture render target can be built when its first color attachment, if it has
  one, refers to a texture or to a render buffer.
\<close>

definition firstAttachmentSet :: "QRhiTextureRenderTargetDescription \<Rightarrow> bool" where
  "firstAttachmentSet desc =
    (case colorAttachments desc of
       [] \<Rightarrow> True
     | first # _ \<Rightarrow> ca_texture first \<noteq> None \<or> ca_renderBuffer first \<noteq> None)"

text \<open>
  A texture operation can be applied when it is not a readback, or reads a texture,
  or reads the swapchain while the device has a current swapchain.
\<close>

definition readable :: "QRhiNull \<Rightarrow> TextureOp \<Rightarrow> bool" where
  "readable st op =
    (case op of
       OtherTextureOp \<Rightarrow> True
     | Read rb result \<Rightarrow>
        (case rbd_texture rb of
           Some tex \<Rightarrow> True
         | None \<Rightarrow>
            (case currentSwapChain st of
               None \<Rightarrow> False
             | Some a \<Rightarrow> mem st a \<noteq> None)))"

text \<open>
  The shape of a finished readback: where its format and size come from, that all its
  bytes are 0, and how many they are when the size in bytes fits an \<open>int\<close>.
\<close>

definition byteCount :: "(Format \<Rightarrow> int) \<Rightarrow> QRhiReadbackResult \<Rightarrow> int" where
  "byteCount bytesPerTexel result =
     width (rr_pixelSize result) * height (rr_pixelSize result)
       * bytesPerTexel (rr_format result)"

definition shaped ::
  "(Format \<Rightarrow> int) \<Rightarrow> (int \<Rightarrow> QSize \<Rightarrow> QSize) \<Rightarrow> QRhiNull
     \<Rightarrow> QRhiReadbackDescription \<Rightarrow> QRhiReadbackResult \<Rightarrow> bool" where
  "shaped bytesPerTexel sizeForMipLevel st rb result \<longleftrightarrow>
     (case rbd_texture rb of
        Some tex \<Rightarrow>
          rr_format result = tex_m_format tex
          \<and> rr_pixelSize result = sizeForMipLevel (rbd_level rb) (tex_m_pixelSize tex)
      | None \<Rightarrow>
          rr_format result = RGBA8
          \<and> (case currentSwapChain st of
                None \<Rightarrow> False
              | Some a \<Rightarrow>
                 (case mem st a of
                    None \<Rightarrow> False
                  | Some sc \<Rightarrow> rr_pixelSize result = sc_m_currentPixelSize sc)))
     \<and> (\<forall>b \<in> set (rr_data result). b = 0)
     \<and> (0 \<le> byteCount bytesPerTexel result \<and> byteCount bytesPerTexel result < 2 ^ 31
          \<longrightarrow> int (length (rr_data result)) = byteCount bytesPerTexel result)"

text \<open>
  Two functions to run \<open>resourceUpdate\<close> with: every format has 4 bytes to the
  texel, as \<open>RGBA8\<close> has, and the size of a mip level is the size of the texture, as
  it is for level 0.
\<close>

definition fourBytesPerTexel :: "Format \<Rightarrow> int" where
  "fourBytesPerTexel format = 4"

definition sizeOfLevel0 :: "int \<Rightarrow> QSize \<Rightarrow> QSize" where
  "sizeOfLevel0 level sz = sz"

section \<open>Properties of the description\<close>

text \<open>Looking up a key after assignments to keys.\<close>

lemma obj_contains_insert:
  "obj_contains (obj_insert obj k v) k' \<longleftrightarrow> k' = k \<or> obj_contains obj k'"
  by (induction obj) (auto split: if_splits)

lemma obj_value_insert:
  "obj_value (obj_insert obj k v) k' = (if k' = k then v else obj_value obj k')"
  by (induction obj) auto

lemma toInt_fromInt: "toInt (fromInt n) = n"
proof -
  have "- (2 ^ 31) \<le> sint n" "sint n < 2 ^ 31"
    using sint_ge [of n] sint_lt [of n] by simp_all
  then show ?thesis
    by (simp add: toInt_def fromInt_def)
qed

lemma toString_JString: "toString (JString s) = s"
  by (simp add: toString_def)

lemma toObject_JObject: "toObject (JObject obj) = obj"
  by (simp add: toObject_def)

lemma toArray_JArray: "toArray (JArray a) = a"
  by (simp add: toArray_def)

lemma toBool_JBool: "toBool (JBool b) = b"
  by (simp add: toBool_def)

lemmas json_simps = obj_contains_insert obj_value_insert toInt_fromInt toString_JString
  toObject_JObject toArray_JArray toBool_JBool

text \<open>
  Every variable type comes back from its token, the unknown one from the empty
  token; every image format but \<open>ImageFormatRgba16\<close> comes back from its token.
\<close>

lemma mapType_typeStr: "mapType (typeStr t) = t"
  by (cases t; simp add: mapType_def typeStr_def typeTab_def)

lemma mapImageFormat_imageFormatStr:
  "f \<noteq> ImageFormatRgba16 \<Longrightarrow> mapImageFormat (imageFormatStr f) = f"
  by (cases f; simp add: mapImageFormat_def imageFormatStr_def imageFormatTab_def)

lemma absentOrSet_cases: "absentOrSet n \<Longrightarrow> \<not> 0 \<le> sint n \<Longrightarrow> n = - 1"
  by (simp add: absentOrSet_def)

text \<open>Reading what was written, part by part.\<close>

lemma inOutVar_inOutObject:
  assumes "decorationsKept v"
  shows "inOutVar (inOutObject v) = v"
proof -
  have loc: "io_location (inOutVar (inOutObject v)) = io_location v"
    using assms
    by (auto simp: inOutVar_def inOutObject_def addDeco_def Let_def json_simps key_defs
          InOutVariable_default_def decorationsKept_def absentOrSet_def)
  have bnd: "io_binding (inOutVar (inOutObject v)) = io_binding v"
    using assms
    by (auto simp: inOutVar_def inOutObject_def addDeco_def Let_def json_simps key_defs
          InOutVariable_default_def decorationsKept_def absentOrSet_def)
  have dset: "io_descriptorSet (inOutVar (inOutObject v)) = io_descriptorSet v"
    using assms
    by (auto simp: inOutVar_def inOutObject_def addDeco_def Let_def json_simps key_defs
          InOutVariable_default_def decorationsKept_def absentOrSet_def)
  have fmt: "io_imageFormat (inOutVar (inOutObject v)) = io_imageFormat v"
    using assms
    by (auto simp: inOutVar_def inOutObject_def addDeco_def Let_def json_simps key_defs
          InOutVariable_default_def decorationsKept_def mapImageFormat_imageFormatStr)
  have flg: "io_imageFlags (inOutVar (inOutObject v)) = io_imageFlags v"
    by (auto simp: inOutVar_def inOutObject_def addDeco_def Let_def json_simps key_defs
          InOutVariable_default_def)
  have nm: "io_name (inOutVar (inOutObject v)) = io_name v"
    by (auto simp: inOutVar_def inOutObject_def addDeco_def Let_def json_simps key_defs
          InOutVariable_default_def)
  have ty: "io_type (inOutVar (inOutObject v)) = io_type v"
    by (auto simp: inOutVar_def inOutObject_def addDeco_def Let_def json_simps key_defs
          InOutVariable_default_def mapType_typeStr)
  have more: "InOutVariable.more (inOutVar (inOutObject v)) = InOutVariable.more v"
    by simp
  from nm ty loc bnd dset fmt flg show ?thesis
    by (intro InOutVariable.equality) simp_all
qed

lemma blockVar_blockMemberObject: "blockVar (blockMemberObject v) = v"
proof (induction v)
  case (BlockVariable name type offset sz arrayDims arrayStride matrixStride
      matrixIsRowMajor structMembers)
  have members:
    "map (\<lambda>x. blockVar (toObject x))
       (map (\<lambda>sv. JObject (blockMemberObject sv)) structMembers) = structMembers"
    using BlockVariable.IH by (simp add: toObject_JObject map_idI)
  have dims: "map toInt (map fromInt arrayDims) = arrayDims"
    by (simp add: toInt_fromInt map_idI)
  show ?case
    by (subst blockVar.simps)
      (auto simp: Let_def json_simps key_defs mapType_typeStr members dims
         simp del: map_map)
qed


lemma members_round_trip:
  "map (\<lambda>member. blockVar (toObject member))
     (map (\<lambda>v. JObject (blockMemberObject v)) ms) = ms"
  by (simp add: toObject_JObject blockVar_blockMemberObject map_idI)

lemma uniformBlockOf_uniformBlockObject:
  assumes "bindingKept_ub b"
  shows "uniformBlockOf (uniformBlockObject b) = b"
proof -
  have "ub_binding (uniformBlockOf (uniformBlockObject b)) = ub_binding b"
    using assms
    by (auto simp: uniformBlockOf_def uniformBlockObject_def Let_def json_simps key_defs
          UniformBlock_default_def bindingKept_ub_def absentOrSet_def)
  moreover have "ub_descriptorSet (uniformBlockOf (uniformBlockObject b)) = ub_descriptorSet b"
    using assms
    by (auto simp: uniformBlockOf_def uniformBlockObject_def Let_def json_simps key_defs
          UniformBlock_default_def bindingKept_ub_def absentOrSet_def)
  moreover have "ub_members (uniformBlockOf (uniformBlockObject b)) = ub_members b"
    by (auto simp: uniformBlockOf_def uniformBlockObject_def Let_def json_simps key_defs
          UniformBlock_default_def members_round_trip simp del: map_map)
  moreover have "ub_blockName (uniformBlockOf (uniformBlockObject b)) = ub_blockName b"
    "ub_structName (uniformBlockOf (uniformBlockObject b)) = ub_structName b"
    "ub_size (uniformBlockOf (uniformBlockObject b)) = ub_size b"
    by (auto simp: uniformBlockOf_def uniformBlockObject_def Let_def json_simps key_defs
          UniformBlock_default_def)
  ultimately show ?thesis
    by (intro UniformBlock.equality) simp_all
qed

lemma pushConstantBlockOf_pushConstantBlockObject:
  "pushConstantBlockOf (pushConstantBlockObject b) = b"
  by (simp add: pushConstantBlockOf_def pushConstantBlockObject_def Let_def json_simps
        key_defs PushConstantBlock_default_def members_round_trip del: map_map)

lemma storageBlockOf_storageBlockObject:
  assumes "bindingKept_sb b"
  shows "storageBlockOf (storageBlockObject b) = b"
proof -
  have "sb_binding (storageBlockOf (storageBlockObject b)) = sb_binding b"
    using assms
    by (auto simp: storageBlockOf_def storageBlockObject_def Let_def json_simps key_defs
          StorageBlock_default_def bindingKept_sb_def absentOrSet_def)
  moreover have "sb_descriptorSet (storageBlockOf (storageBlockObject b)) = sb_descriptorSet b"
    using assms
    by (auto simp: storageBlockOf_def storageBlockObject_def Let_def json_simps key_defs
          StorageBlock_default_def bindingKept_sb_def absentOrSet_def)
  moreover have "sb_members (storageBlockOf (storageBlockObject b)) = sb_members b"
    by (auto simp: storageBlockOf_def storageBlockObject_def Let_def json_simps key_defs
          StorageBlock_default_def members_round_trip simp del: map_map)
  moreover have "sb_blockName (storageBlockOf (storageBlockObject b)) = sb_blockName b"
    "sb_instanceName (storageBlockOf (storageBlockObject b)) = sb_instanceName b"
    "sb_knownSize (storageBlockOf (storageBlockObject b)) = sb_knownSize b"
    by (auto simp: storageBlockOf_def storageBlockObject_def Let_def json_simps key_defs
          StorageBlock_default_def)
  ultimately show ?thesis
    by (intro StorageBlock.equality) simp_all
qed

lemma samplerObject_eq: "samplerObject v = inOutObject v"
  by (simp add: samplerObject_def inOutObject_def)

lemma imageObject_eq: "imageObject v = inOutObject v"
  by (simp add: imageObject_def inOutObject_def)

lemma inOutVars_round_trip:
  assumes "\<forall>v \<in> set vs. decorationsKept v"
  shows "map (\<lambda>x. inOutVar (toObject x)) (map (\<lambda>v. JObject (inOutObject v)) vs) = vs"
  using assms by (simp add: toObject_JObject inOutVar_inOutObject map_idI)

lemma uniformBlocks_round_trip:
  assumes "\<forall>b \<in> set bs. bindingKept_ub b"
  shows "map (\<lambda>x. uniformBlockOf (toObject x)) (map (\<lambda>b. JObject (uniformBlockObject b)) bs) = bs"
  using assms by (simp add: toObject_JObject uniformBlockOf_uniformBlockObject map_idI)

lemma pushConstantBlocks_round_trip:
  "map (\<lambda>x. pushConstantBlockOf (toObject x))
     (map (\<lambda>b. JObject (pushConstantBlockObject b)) bs) = bs"
  by (simp add: toObject_JObject pushConstantBlockOf_pushConstantBlockObject map_idI)

lemma storageBlocks_round_trip:
  assumes "\<forall>b \<in> set bs. bindingKept_sb b"
  shows "map (\<lambda>x. storageBlockOf (toObject x)) (map (\<lambda>b. JObject (storageBlockObject b)) bs) = bs"
  using assms by (simp add: toObject_JObject storageBlockOf_storageBlockObject map_idI)


lemma obj_contains_if_insert:
  "obj_contains (if c then obj_insert obj k v else obj) k'
     \<longleftrightarrow> (c \<and> k' = k) \<or> obj_contains obj k'"
  by (simp add: obj_contains_insert)

lemma obj_value_if_insert:
  "obj_value (if c then obj_insert obj k v else obj) k'
     = (if c \<and> k' = k then v else obj_value obj k')"
  by (simp add: obj_value_insert)

lemma if_nonempty: "(if xs \<noteq> [] then xs else []) = xs"
  by simp

text \<open>The root object of \<open>makeDoc\<close>: a key for each collection that is not empty.\<close>

lemma object_makeDoc_contains:
  "obj_contains (object (makeDoc d)) inputsKey \<longleftrightarrow> inVars d \<noteq> []"
  "obj_contains (object (makeDoc d)) outputsKey \<longleftrightarrow> outVars d \<noteq> []"
  "obj_contains (object (makeDoc d)) uniformBlocksKey \<longleftrightarrow> uniformBlocks d \<noteq> []"
  "obj_contains (object (makeDoc d)) pushConstantBlocksKey \<longleftrightarrow> pushConstantBlocks d \<noteq> []"
  "obj_contains (object (makeDoc d)) storageBlocksKey \<longleftrightarrow> storageBlocks d \<noteq> []"
  "obj_contains (object (makeDoc d)) combinedImageSamplersKey
     \<longleftrightarrow> combinedImageSamplers d \<noteq> []"
  "obj_contains (object (makeDoc d)) storageImagesKey \<longleftrightarrow> storageImages d \<noteq> []"
  by (simp_all add: makeDoc_def object_def Let_def obj_contains_if_insert key_defs)

lemma object_makeDoc_value:
  "toArray (obj_value (object (makeDoc d)) inputsKey)
     = map (\<lambda>v. JObject (inOutObject v)) (inVars d)"
  "toArray (obj_value (object (makeDoc d)) outputsKey)
     = map (\<lambda>v. JObject (inOutObject v)) (outVars d)"
  "toArray (obj_value (object (makeDoc d)) uniformBlocksKey)
     = map (\<lambda>b. JObject (uniformBlockObject b)) (uniformBlocks d)"
  "toArray (obj_value (object (makeDoc d)) pushConstantBlocksKey)
     = map (\<lambda>b. JObject (pushConstantBlockObject b)) (pushConstantBlocks d)"
  "toArray (obj_value (object (makeDoc d)) storageBlocksKey)
     = map (\<lambda>b. JObject (storageBlockObject b)) (storageBlocks d)"
  "toArray (obj_value (object (makeDoc d)) combinedImageSamplersKey)
     = map (\<lambda>v. JObject (samplerObject v)) (combinedImageSamplers d)"
  "toArray (obj_value (object (makeDoc d)) storageImagesKey)
     = map (\<lambda>v. JObject (imageObject v)) (storageImages d)"
  by (simp_all add: makeDoc_def object_def Let_def obj_value_if_insert key_defs
        toArray_def)

lemma isNull_makeDoc: "\<not> isNull (makeDoc d)"
  by (simp add: makeDoc_def isNull_def Let_def)

lemma append_stage:
  "(if c then r\<lparr>inVars := inVars r @ xs1\<rparr> else r)
     = r\<lparr>inVars := inVars r @ (if c then xs1 else [])\<rparr>"
  "(if c then r\<lparr>outVars := outVars r @ xs2\<rparr> else r)
     = r\<lparr>outVars := outVars r @ (if c then xs2 else [])\<rparr>"
  "(if c then r\<lparr>uniformBlocks := uniformBlocks r @ xs3\<rparr> else r)
     = r\<lparr>uniformBlocks := uniformBlocks r @ (if c then xs3 else [])\<rparr>"
  "(if c then r\<lparr>pushConstantBlocks := pushConstantBlocks r @ xs4\<rparr> else r)
     = r\<lparr>pushConstantBlocks := pushConstantBlocks r @ (if c then xs4 else [])\<rparr>"
  "(if c then r\<lparr>storageBlocks := storageBlocks r @ xs5\<rparr> else r)
     = r\<lparr>storageBlocks := storageBlocks r @ (if c then xs5 else [])\<rparr>"
  "(if c then r\<lparr>combinedImageSamplers := combinedImageSamplers r @ xs6\<rparr> else r)
     = r\<lparr>combinedImageSamplers := combinedImageSamplers r @ (if c then xs6 else [])\<rparr>"
  "(if c then r\<lparr>storageImages := storageImages r @ xs7\<rparr> else r)
     = r\<lparr>storageImages := storageImages r @ (if c then xs7 else [])\<rparr>"
  by simp_all

text \<open>What \<open>loadDoc\<close> makes of a document that is not null.\<close>

lemma loadDoc_fields:
  assumes "\<not> isNull doc"
  shows "loadDoc doc 1 d0 = Inr
    (\<lparr> inVars =
         (if obj_contains (object doc) inputsKey
          then map (\<lambda>x. inOutVar (toObject x)) (toArray (obj_value (object doc) inputsKey))
          else []),
       outVars =
         (if obj_contains (object doc) outputsKey
          then map (\<lambda>x. inOutVar (toObject x)) (toArray (obj_value (object doc) outputsKey))
          else []),
       uniformBlocks =
         (if obj_contains (object doc) uniformBlocksKey
          then map (\<lambda>x. uniformBlockOf (toObject x))
                 (toArray (obj_value (object doc) uniformBlocksKey))
          else []),
       pushConstantBlocks =
         (if obj_contains (object doc) pushConstantBlocksKey
          then map (\<lambda>x. pushConstantBlockOf (toObject x))
                 (toArray (obj_value (object doc) pushConstantBlocksKey))
          else []),
       storageBlocks =
         (if obj_contains (object doc) storageBlocksKey
          then map (\<lambda>x. storageBlockOf (toObject x))
                 (toArray (obj_value (object doc) storageBlocksKey))
          else []),
       combinedImageSamplers =
         (if obj_contains (object doc) combinedImageSamplersKey
          then map (\<lambda>x. inOutVar (toObject x))
                 (toArray (obj_value (object doc) combinedImageSamplersKey))
          else []),
       storageImages =
         (if obj_contains (object doc) storageImagesKey
          then map (\<lambda>x. inOutVar (toObject x))
                 (toArray (obj_value (object doc) storageImagesKey))
          else []) \<rparr>, [])"
  using assms
  by (simp add: loadDoc_def Let_def append_stage del: if_split cong: if_cong)

lemma loadDoc_makeDoc:
  assumes "representable d"
  shows "loadDoc (makeDoc d) 1 d0 = Inr (d, [])"
proof -
  have io: "map (\<lambda>x. inOutVar (toObject x)) (map (\<lambda>v. JObject (inOutObject v)) (inVars d))
              = inVars d"
    "map (\<lambda>x. inOutVar (toObject x)) (map (\<lambda>v. JObject (inOutObject v)) (outVars d))
              = outVars d"
    "map (\<lambda>x. inOutVar (toObject x))
       (map (\<lambda>v. JObject (samplerObject v)) (combinedImageSamplers d))
              = combinedImageSamplers d"
    "map (\<lambda>x. inOutVar (toObject x)) (map (\<lambda>v. JObject (imageObject v)) (storageImages d))
              = storageImages d"
    using assms
    by (simp_all add: representable_def samplerObject_eq imageObject_eq
          inOutVars_round_trip del: map_map)
  have blocks:
    "map (\<lambda>x. uniformBlockOf (toObject x))
       (map (\<lambda>b. JObject (uniformBlockObject b)) (uniformBlocks d)) = uniformBlocks d"
    "map (\<lambda>x. storageBlockOf (toObject x))
       (map (\<lambda>b. JObject (storageBlockObject b)) (storageBlocks d)) = storageBlocks d"
    using assms
    by (simp_all add: representable_def uniformBlocks_round_trip storageBlocks_round_trip
          del: map_map)
  show ?thesis
    by (simp only: loadDoc_fields [OF isNull_makeDoc] object_makeDoc_contains
          object_makeDoc_value io blocks pushConstantBlocks_round_trip if_nonempty)
      simp
qed


text \<open>
  C1, as the code has it. A description with at least one entry, in which every
  location, binding and descriptor set is -1 or not negative and no variable has the
  image format \<open>ImageFormatRgba16\<close>, comes back from \<open>fromBinaryJson\<close> exactly as it
  was given to \<open>toBinaryJson\<close>, every collection in its order, and without a warning,
  when the binary form gives back the document that was written to it.
\<close>

theorem binary_round_trip:
  assumes "isValid d" and "representable d"
    and "fromBinaryData (toBinaryData (makeDoc d)) = makeDoc d"
  shows "fromBinaryJson fromBinaryData (toBinaryJson toBinaryData d) = Inr (d, [])"
  using assms by (simp add: fromBinaryJson_def toBinaryJson_def loadDoc_makeDoc)

text \<open>The description of the documented vertex shader comes back as it was.\<close>

theorem binary_round_trip_witness:
  "isValid vertexShaderExample \<and> representable vertexShaderExample
   \<and> id (id (makeDoc vertexShaderExample)) = makeDoc vertexShaderExample
   \<and> fromBinaryJson id (toBinaryJson id vertexShaderExample) = Inr (vertexShaderExample, [])"
  using binary_round_trip [of vertexShaderExample id id]
  by (simp add: isValid_def representable_def vertexShaderExample_def decorationsKept_def
        bindingKept_ub_def absentOrSet_def InOutVariable_default_def)

text \<open>
  C1 as stated fails: the input with location -2 is written without a location and
  comes back with location -1.
\<close>

theorem binary_round_trip_counterexample:
  "isValid negativeLocationExample
   \<and> fromBinaryJson id (toBinaryJson id negativeLocationExample)
       = Inr (negativeLocationExample
                \<lparr>inVars := [InOutVariable_default\<lparr>io_name := ''color'', io_type := Vec3\<rparr>]\<rparr>, [])
   \<and> fromBinaryJson id (toBinaryJson id negativeLocationExample)
       \<noteq> Inr (negativeLocationExample, [])"
proof -
  have var:
    "inOutVar (inOutObject
        (InOutVariable_default\<lparr>io_name := ''color'', io_type := Vec3, io_location := - 2\<rparr>))
       = InOutVariable_default\<lparr>io_name := ''color'', io_type := Vec3\<rparr>"
    by (simp add: inOutVar_def inOutObject_def addDeco_def Let_def json_simps key_defs
          InOutVariable_default_def mapType_typeStr)
  have "loadDoc (makeDoc negativeLocationExample) 1 QShaderDescription_new
          = Inr (negativeLocationExample
                   \<lparr>inVars := [InOutVariable_default\<lparr>io_name := ''color'', io_type := Vec3\<rparr>]\<rparr>,
                 [])"
    by (simp add: loadDoc_fields [OF isNull_makeDoc] object_makeDoc_contains
          object_makeDoc_value negativeLocationExample_def toObject_JObject var)
  then show ?thesis
    by (simp add: fromBinaryJson_def toBinaryJson_def isValid_def negativeLocationExample_def
          InOutVariable_default_def)
qed

text \<open>
  C2 asks that every image format other than the unknown one comes back from its
  token. \<open>ImageFormatRgba16\<close> does not: its token is \<open>rgba16\<close>, which the table
  has first for \<open>ImageFormatRgba16f\<close>. (Every variable type comes back, and every
  other image format does: \<open>mapType_typeStr\<close>, \<open>mapImageFormat_imageFormatStr\<close>.)
\<close>

theorem imageFormat_rgba16_not_restored:
  "imageFormatStr ImageFormatRgba16 = ''rgba16''
   \<and> mapImageFormat ''rgba16'' = ImageFormatRgba16f
   \<and> mapImageFormat (imageFormatStr ImageFormatRgba16) \<noteq> ImageFormatRgba16"
  by (simp add: imageFormatStr_def mapImageFormat_def imageFormatTab_def)

text \<open>A token that no entry of a table has.\<close>

lemma mapType_loop_absent: "t \<notin> fst ` set tab \<Longrightarrow> mapType_loop tab t = Unknown"
  by (induction tab t rule: mapType_loop.induct) auto

lemma mapImageFormat_loop_absent:
  "f \<notin> fst ` set tab \<Longrightarrow> mapImageFormat_loop tab f = ImageFormatUnknown"
  by (induction tab f rule: mapImageFormat_loop.induct) auto

text \<open>
  C3, as the code has it. In both tables a token that is not in the table maps to the
  unknown enumerator. The unknown variable type has the empty token. The unknown
  image format has the token \<open>unknown\<close>, an entry of its table, and that token maps
  back to it; the writer leaves the image format of a variable out by its own test
  for the unknown format.
\<close>

theorem unknown_tokens:
  "(t \<notin> fst ` set typeTab \<longrightarrow> mapType t = Unknown)
   \<and> (f \<notin> fst ` set imageFormatTab \<longrightarrow> mapImageFormat f = ImageFormatUnknown)
   \<and> typeStr Unknown = []
   \<and> imageFormatStr ImageFormatUnknown = ''unknown''
   \<and> mapImageFormat ''unknown'' = ImageFormatUnknown
   \<and> (io_imageFormat v = ImageFormatUnknown
         \<longrightarrow> \<not> obj_contains (inOutObject v) imageFormatKey)"
proof -
  have "typeStr Unknown = []"
    by (simp add: typeStr_def typeTab_def)
  moreover have "\<not> obj_contains (inOutObject v) imageFormatKey"
    if "io_imageFormat v = ImageFormatUnknown"
    using that
    by (simp add: inOutObject_def addDeco_def Let_def obj_contains_if_insert
          obj_contains_insert key_defs)
  moreover have "imageFormatStr ImageFormatUnknown = ''unknown''"
    "mapImageFormat ''unknown'' = ImageFormatUnknown"
    by (simp_all add: imageFormatStr_def mapImageFormat_def imageFormatTab_def)
  ultimately show ?thesis
    by (simp add: mapType_def mapImageFormat_def mapType_loop_absent
          mapImageFormat_loop_absent)
qed

text \<open>Two tokens that are in neither table.\<close>

theorem unknown_tokens_witness:
  "''vec5'' \<notin> fst ` set typeTab \<and> mapType ''vec5'' = Unknown
   \<and> ''rgba64f'' \<notin> fst ` set imageFormatTab \<and> mapImageFormat ''rgba64f'' = ImageFormatUnknown
   \<and> io_imageFormat InOutVariable_default = ImageFormatUnknown
   \<and> \<not> obj_contains (inOutObject InOutVariable_default) imageFormatKey"
  using unknown_tokens [of "''vec5''" "''rgba64f''" InOutVariable_default]
  by (simp add: typeTab_def imageFormatTab_def InOutVariable_default_def)

text \<open>C3 as stated fails: the token of the unknown image format is not empty.\<close>

theorem unknown_tokens_counterexample:
  "imageFormatStr ImageFormatUnknown = ''unknown'' \<and> imageFormatStr ImageFormatUnknown \<noteq> []"
  by (simp add: imageFormatStr_def imageFormatTab_def)

text \<open>The keys the writers leave out, and the values the readers start from.\<close>

lemma blockVar_empty: "blockVar [] = BlockVariable_default"
  by (subst blockVar.simps)
    (simp add: BlockVariable_default_def toString_def toInt_def mapType_def typeTab_def)

lemma inOutObject_omits:
  "io_location v = - 1 \<Longrightarrow> \<not> obj_contains (inOutObject v) locationKey"
  "io_binding v = - 1 \<Longrightarrow> \<not> obj_contains (inOutObject v) bindingKey"
  "io_descriptorSet v = - 1 \<Longrightarrow> \<not> obj_contains (inOutObject v) setKey"
  "io_imageFormat v = ImageFormatUnknown \<Longrightarrow> \<not> obj_contains (inOutObject v) imageFormatKey"
  "io_imageFlags v = 0 \<Longrightarrow> \<not> obj_contains (inOutObject v) imageFlagsKey"
  by (simp_all add: inOutObject_def addDeco_def Let_def obj_contains_if_insert
        obj_contains_insert key_defs)

lemma blockMemberObject_omits:
  "bv_arrayDims b = [] \<Longrightarrow> \<not> obj_contains (blockMemberObject b) arrayDimsKey"
  "bv_arrayStride b = 0 \<Longrightarrow> \<not> obj_contains (blockMemberObject b) arrayStrideKey"
  "bv_matrixStride b = 0 \<Longrightarrow> \<not> obj_contains (blockMemberObject b) matrixStrideKey"
  "\<not> bv_matrixIsRowMajor b \<Longrightarrow> \<not> obj_contains (blockMemberObject b) matrixRowMajorKey"
  "bv_structMembers b = [] \<Longrightarrow> \<not> obj_contains (blockMemberObject b) structMembersKey"
  by (cases b; simp add: Let_def obj_contains_if_insert obj_contains_insert key_defs)+

lemma inOutVar_defaults:
  "\<not> obj_contains obj locationKey \<Longrightarrow> io_location (inOutVar obj) = - 1"
  "\<not> obj_contains obj bindingKey \<Longrightarrow> io_binding (inOutVar obj) = - 1"
  "\<not> obj_contains obj setKey \<Longrightarrow> io_descriptorSet (inOutVar obj) = - 1"
  "\<not> obj_contains obj imageFormatKey \<Longrightarrow> io_imageFormat (inOutVar obj) = ImageFormatUnknown"
  "\<not> obj_contains obj imageFlagsKey \<Longrightarrow> io_imageFlags (inOutVar obj) = 0"
  by (simp_all add: inOutVar_def Let_def InOutVariable_default_def)

lemma blockVar_defaults:
  "\<not> obj_contains obj arrayDimsKey \<Longrightarrow> bv_arrayDims (blockVar obj) = []"
  "\<not> obj_contains obj arrayStrideKey \<Longrightarrow> bv_arrayStride (blockVar obj) = 0"
  "\<not> obj_contains obj matrixStrideKey \<Longrightarrow> bv_matrixStride (blockVar obj) = 0"
  "\<not> obj_contains obj matrixRowMajorKey \<Longrightarrow> \<not> bv_matrixIsRowMajor (blockVar obj)"
  "\<not> obj_contains obj structMembersKey \<Longrightarrow> bv_structMembers (blockVar obj) = []"
  by (subst blockVar.simps, simp)+

text \<open>
  C4. A field of an \<open>InOutVariable\<close> or of a \<open>BlockVariable\<close> that has its default
  (-1 for location, binding and descriptor set, the unknown image format, 0 for the
  image flags and the two strides, false for row-major, no array dimensions, no
  struct members) has no key in the object written for the variable, whichever of
  the writers writes it; and an object without the key is read as a variable with
  that default in the field.
\<close>

theorem defaults_omitted_and_restored:
  "(io_location v = - 1 \<longrightarrow> \<not> obj_contains (inOutObject v) locationKey)
   \<and> (io_binding v = - 1 \<longrightarrow> \<not> obj_contains (inOutObject v) bindingKey)
   \<and> (io_descriptorSet v = - 1 \<longrightarrow> \<not> obj_contains (inOutObject v) setKey)
   \<and> (io_imageFormat v = ImageFormatUnknown
         \<longrightarrow> \<not> obj_contains (inOutObject v) imageFormatKey)
   \<and> (io_imageFlags v = 0 \<longrightarrow> \<not> obj_contains (inOutObject v) imageFlagsKey)
   \<and> samplerObject v = inOutObject v \<and> imageObject v = inOutObject v
   \<and> (bv_arrayDims b = [] \<longrightarrow> \<not> obj_contains (blockMemberObject b) arrayDimsKey)
   \<and> (bv_arrayStride b = 0 \<longrightarrow> \<not> obj_contains (blockMemberObject b) arrayStrideKey)
   \<and> (bv_matrixStride b = 0 \<longrightarrow> \<not> obj_contains (blockMemberObject b) matrixStrideKey)
   \<and> (\<not> bv_matrixIsRowMajor b
         \<longrightarrow> \<not> obj_contains (blockMemberObject b) matrixRowMajorKey)
   \<and> (bv_structMembers b = []
         \<longrightarrow> \<not> obj_contains (blockMemberObject b) structMembersKey)
   \<and> (\<not> obj_contains obj locationKey \<longrightarrow> io_location (inOutVar obj) = - 1)
   \<and> (\<not> obj_contains obj bindingKey \<longrightarrow> io_binding (inOutVar obj) = - 1)
   \<and> (\<not> obj_contains obj setKey \<longrightarrow> io_descriptorSet (inOutVar obj) = - 1)
   \<and> (\<not> obj_contains obj imageFormatKey
         \<longrightarrow> io_imageFormat (inOutVar obj) = ImageFormatUnknown)
   \<and> (\<not> obj_contains obj imageFlagsKey \<longrightarrow> io_imageFlags (inOutVar obj) = 0)
   \<and> (\<not> obj_contains obj arrayDimsKey \<longrightarrow> bv_arrayDims (blockVar obj) = [])
   \<and> (\<not> obj_contains obj arrayStrideKey \<longrightarrow> bv_arrayStride (blockVar obj) = 0)
   \<and> (\<not> obj_contains obj matrixStrideKey \<longrightarrow> bv_matrixStride (blockVar obj) = 0)
   \<and> (\<not> obj_contains obj matrixRowMajorKey \<longrightarrow> \<not> bv_matrixIsRowMajor (blockVar obj))
   \<and> (\<not> obj_contains obj structMembersKey \<longrightarrow> bv_structMembers (blockVar obj) = [])"
  by (intro conjI impI inOutObject_omits blockMemberObject_omits inOutVar_defaults
        blockVar_defaults samplerObject_eq imageObject_eq)

text \<open>
  A sampler with every decoration at its default and the member \<open>opacity\<close> of the
  documented uniform block: the objects written have only the keys of the fields that
  are always written, and reading them gives the variables back.
\<close>

theorem defaults_omitted_and_restored_witness:
  "inOutObject (InOutVariable_default\<lparr>io_name := ''tex'', io_type := Float\<rparr>)
     = [(''name'', JString ''tex''), (''type'', JString ''float'')]
   \<and> blockMemberObject (BlockVariable ''opacity'' Float 64 4 [] 0 0 False [])
     = [(''name'', JString ''opacity''), (''type'', JString ''float''),
        (''offset'', JDouble (Whole 64)), (''size'', JDouble (Whole 4))]
   \<and> inOutVar [(''name'', JString ''tex''), (''type'', JString ''float'')]
     = InOutVariable_default\<lparr>io_name := ''tex'', io_type := Float\<rparr>
   \<and> blockVar [(''name'', JString ''opacity''), (''type'', JString ''float''),
        (''offset'', JDouble (Whole 64)), (''size'', JDouble (Whole 4))]
     = BlockVariable ''opacity'' Float 64 4 [] 0 0 False []"
  using defaults_omitted_and_restored
    [of "InOutVariable_default\<lparr>io_name := ''tex'', io_type := Float\<rparr>"
        "BlockVariable ''opacity'' Float 64 4 [] 0 0 False []"
        "[(''name'', JString ''tex''), (''type'', JString ''float'')]"]
  by (simp add: inOutObject_def addDeco_def inOutVar_def blockVar.simps Let_def key_defs
        InOutVariable_default_def typeStr_def mapType_def typeTab_def fromInt_def
        toString_def toInt_def)

text \<open>
  C5. When the data are not a binary document, so that \<open>fromBinaryData\<close> returns the
  null document, \<open>fromBinaryJson\<close> returns normally, with one warning printed and
  the newly constructed description: its seven collections are empty and it is not
  valid.
\<close>

theorem fromBinaryJson_null_document:
  assumes "isNull (fromBinaryData data)"
  shows "fromBinaryJson fromBinaryData data
           = Inr (QShaderDescription_new, [''QShaderDescription: JSON document is empty''])
         \<and> inVars QShaderDescription_new = [] \<and> outVars QShaderDescription_new = []
         \<and> uniformBlocks QShaderDescription_new = []
         \<and> pushConstantBlocks QShaderDescription_new = []
         \<and> storageBlocks QShaderDescription_new = []
         \<and> combinedImageSamplers QShaderDescription_new = []
         \<and> storageImages QShaderDescription_new = []
         \<and> \<not> isValid QShaderDescription_new"
  using assms
  by (simp add: fromBinaryJson_def loadDoc_def QShaderDescription_new_def isValid_def)

text \<open>The null document itself, read with the identity as the binary form.\<close>

theorem fromBinaryJson_null_document_witness:
  "isNull (id DocNull)
   \<and> fromBinaryJson id DocNull
       = Inr (QShaderDescription_new, [''QShaderDescription: JSON document is empty''])"
  using fromBinaryJson_null_document [of id DocNull]
  by (simp add: isNull_def)

section \<open>Properties of the null backend\<close>


text \<open>Signed 32-bit values that do not overflow.\<close>

lemma sint_word_of_int_fits:
  "0 \<le> n \<Longrightarrow> n < 2 ^ 31 \<Longrightarrow> sint (word_of_int n :: 32 word) = n"
  by (simp add: sint_sbintrunc' signed_take_bit_int_eq_self)

lemma sint_textureFormatInfo:
  assumes "0 \<le> width sz * height sz * bytesPerTexel format"
    and "width sz * height sz * bytesPerTexel format < 2 ^ 31"
  shows "sint (textureFormatInfo bytesPerTexel format sz)
           = width sz * height sz * bytesPerTexel format"
  unfolding textureFormatInfo_def using assms by (rule sint_word_of_int_fits)

lemma sint_succ:
  assumes "sint (n :: 32 word) < 2 ^ 31 - 1"
  shows "sint (n + 1) = sint n + 1"
proof -
  have "- (2 ^ 31) \<le> sint n"
    using sint_ge [of n] by simp
  then have "signed_take_bit 31 (sint n + 1) = sint n + 1"
    using assms by (intro signed_take_bit_int_eq_self) simp_all
  then show ?thesis
    by (simp add: sint_word_add)
qed

lemma readback_shaped:
  assumes "readback bytesPerTexel sizeForMipLevel st rb result = Inr result'"
  shows "shaped bytesPerTexel sizeForMipLevel st rb result'"
  using assms
  by (auto simp: readback_def shaped_def byteCount_def fill_def sint_textureFormatInfo
        Let_def split: option.splits sum.splits if_splits)

lemma readback_total:
  assumes "readable st (Read rb result)"
  shows "\<exists>result'. readback bytesPerTexel sizeForMipLevel st rb result = Inr result'"
  using assms
  by (auto simp: readback_def readable_def Let_def split: option.splits)

lemma resourceUpdate_nth:
  assumes "\<forall>op \<in> set ops. readable st op"
  shows "\<exists>ops' calls. resourceUpdate bytesPerTexel sizeForMipLevel st ops = Inr (ops', calls)
           \<and> length ops' = length ops
           \<and> (\<forall>i < length ops. \<forall>rb result. ops ! i = Read rb result \<longrightarrow>
                (\<exists>result'. ops' ! i = Read rb result'
                   \<and> readback bytesPerTexel sizeForMipLevel st rb result = Inr result'))"
  using assms
proof (induction ops)
  case Nil
  then show ?case by simp
next
  case (Cons op ops)
  then obtain ops' calls where
    tl: "resourceUpdate bytesPerTexel sizeForMipLevel st ops = Inr (ops', calls)"
      "length ops' = length ops"
      "\<forall>i < length ops. \<forall>rb result. ops ! i = Read rb result \<longrightarrow>
         (\<exists>result'. ops' ! i = Read rb result'
            \<and> readback bytesPerTexel sizeForMipLevel st rb result = Inr result')"
    by auto
  show ?case
  proof (cases op)
    case OtherTextureOp
    with tl show ?thesis
      by (auto simp: nth_Cons split: nat.splits)
  next
    case (Read rb result)
    with Cons.prems obtain result' where
      "readback bytesPerTexel sizeForMipLevel st rb result = Inr result'"
      using readback_total by fastforce
    with tl Read show ?thesis
      by (auto simp: nth_Cons split: nat.splits)
  qed
qed

text \<open>
  Where \<open>build\<close> does return true: for buffers, render buffers, textures, samplers,
  shader resource bindings, both pipelines and swapchains (\<open>buildOrResize\<close>),
  whatever they were created with; and for a texture render target whose first color
  attachment, if there is one, has a texture or a render buffer.
\<close>

lemma build_returns_true:
  "fst (QNullBuffer_build (createBuffer type usage sz) p)
   \<and> fst (QNullRenderBuffer_build (createRenderBuffer rtype pixelSize sampleCount rflags) p)
   \<and> fst (QNullTexture_build (createTexture format pixelSize sampleCount tflags) p)
   \<and> QNullSampler_build (createSampler magFilter minFilter mipmapMode u v)
   \<and> QNullShaderResourceBindings_build srb
   \<and> QNullGraphicsPipeline_build gps
   \<and> QNullComputePipeline_build cps
   \<and> fst (buildOrResize sc p)
   \<and> (firstAttachmentSet (trt_m_desc rt) \<longrightarrow>
        (\<exists>rt'. QNullTextureRenderTarget_build rt = Inr (True, rt')))"
  by (auto simp: QNullBuffer_build_def QNullRenderBuffer_build_def QNullTexture_build_def
        QNullSampler_build_def QNullShaderResourceBindings_build_def
        QNullGraphicsPipeline_build_def QNullComputePipeline_build_def buildOrResize_def
        QNullTextureRenderTarget_build_def firstAttachmentSet_def Let_def
        split: list.splits option.splits)

text \<open>A render target on one 64 by 32 texture: built, with the size of the texture.\<close>

lemma build_returns_true_example:
  "firstAttachmentSet
     \<lparr> colorAttachments =
         [\<lparr> ca_texture = Some (createTexture RGBA8 \<lparr> width = 64, height = 32 \<rparr> 1 {}),
            ca_renderBuffer = None \<rparr>],
       depthStencilBuffer = None, depthTexture = None \<rparr>
   \<and> QNullTextureRenderTarget_build
       (createTextureRenderTarget
          \<lparr> colorAttachments =
              [\<lparr> ca_texture = Some (createTexture RGBA8 \<lparr> width = 64, height = 32 \<rparr> 1 {}),
                 ca_renderBuffer = None \<rparr>],
            depthStencilBuffer = None, depthTexture = None \<rparr> 0)
     = Inr (True,
         \<lparr> trt_m_desc =
             \<lparr> colorAttachments =
                 [\<lparr> ca_texture = Some (createTexture RGBA8 \<lparr> width = 64, height = 32 \<rparr> 1 {}),
                    ca_renderBuffer = None \<rparr>],
               depthStencilBuffer = None, depthTexture = None \<rparr>,
           trt_m_flags = 0, trt_m_renderPassDesc = None,
           trt_d = \<lparr> rtd_rp = None, rtd_pixelSize = \<lparr> width = 64, height = 32 \<rparr> \<rparr> \<rparr>)"
  using build_returns_true [where rt = "createTextureRenderTarget
          \<lparr> colorAttachments =
              [\<lparr> ca_texture = Some (createTexture RGBA8 \<lparr> width = 64, height = 32 \<rparr> 1 {}),
                 ca_renderBuffer = None \<rparr>],
            depthStencilBuffer = None, depthTexture = None \<rparr> 0"]
  by (simp add: firstAttachmentSet_def createTextureRenderTarget_def createTexture_def
        QNullTextureRenderTarget_build_def)


text \<open>
  C6 asks that \<open>build\<close> returns true for every resource the factory functions
  create. For a texture render target whose first color attachment has neither a
  texture nor a render buffer, which is what a default-constructed attachment is,
  \<open>build\<close> does not return: it reads the size through the null render buffer
  pointer. The branches for the depth-stencil buffer and the depth texture test their
  pointers first; the branch for the color attachment tests only the texture. (For
  every other resource, and for every other render target, \<open>build\<close> returns true:
  \<open>build_returns_true\<close>.)
\<close>

theorem build_unset_attachment_fails:
  "QNullTextureRenderTarget_build
     (createTextureRenderTarget
        \<lparr> colorAttachments = [\<lparr> ca_texture = None, ca_renderBuffer = None \<rparr>],
          depthStencilBuffer = None, depthTexture = None \<rparr> 0)
   = Inl NullDereference"
  by (simp add: QNullTextureRenderTarget_build_def createTextureRenderTarget_def)

text \<open>
  C7. A frame begun and ended on a swapchain that is in memory: both calls return
  \<open>FrameOpSuccess\<close>, and the frame count of that swapchain is 1 more than before,
  in the arithmetic of the counter, which is the integer 1 more unless the counter
  was at the largest \<open>int\<close>; the other swapchains are as before. \<open>buildOrResize\<close>
  returns true, sets the frame count to 0 and the current size to the size of the
  surface.
\<close>

theorem frame_cycle_increments:
  assumes "mem st a = Some sc"
  shows "(\<exists>st'. frameCycle (Some a) beginFlags endFlags st
                  = Inr (FrameOpSuccess, FrameOpSuccess, st')
            \<and> mem st' = (mem st)(a \<mapsto> sc\<lparr>sc_frameCount := sc_frameCount sc + 1\<rparr>)
            \<and> (sint (sc_frameCount sc) < 2 ^ 31 - 1 \<longrightarrow>
                 sint (sc_frameCount sc + 1) = sint (sc_frameCount sc) + 1))
         \<and> (case buildOrResize sc p of
              (ok, sc', p') \<Rightarrow>
                ok \<and> sc_frameCount sc' = 0
                \<and> sc_m_currentPixelSize sc' = surfacePixelSize sc)"
  using assms
  by (simp add: frameCycle_def beginFrame_def endFrame_def buildOrResize_def Let_def
        sint_succ)

text \<open>The first frame of a new swapchain at address 0: its frame count goes from 0 to 1.\<close>

theorem frame_cycle_increments_witness:
  "mem \<lparr> currentSwapChain = None, rhiP = None, mem = [0 \<mapsto> createSwapChain] \<rparr> 0
     = Some createSwapChain
   \<and> sint (sc_frameCount createSwapChain) < 2 ^ 31 - 1
   \<and> frameCycle (Some 0) 0 0
        \<lparr> currentSwapChain = None, rhiP = None, mem = [0 \<mapsto> createSwapChain] \<rparr>
      = Inr (FrameOpSuccess, FrameOpSuccess,
          \<lparr> currentSwapChain = None, rhiP = None,
            mem = [0 \<mapsto> createSwapChain\<lparr>sc_frameCount := 1\<rparr>] \<rparr>)
   \<and> sint (sc_frameCount createSwapChain + 1) = 1"
  using frame_cycle_increments
    [of "\<lparr> currentSwapChain = None, rhiP = None, mem = [0 \<mapsto> createSwapChain] \<rparr>"
        0 createSwapChain 0 0 None]
  by (simp add: createSwapChain_def frameCycle_def beginFrame_def endFrame_def
        QRHI_PROF_F_def)


text \<open>
  C8, as the backend has it. \<open>beginOffscreenFrame\<close> checks nothing: it returns
  \<open>FrameOpSuccess\<close> with the offscreen command buffer and leaves the device as it
  was, also right after a \<open>beginFrame\<close>, when the swapchain given to \<open>beginFrame\<close> is
  still the current one.
\<close>

theorem beginOffscreenFrame_unchecked:
  "beginOffscreenFrame st = ((FrameOpSuccess, OffscreenCommandBuffer), st)
   \<and> fst (beginOffscreenFrame (snd (beginFrame swapChain flags st)))
       = (FrameOpSuccess, OffscreenCommandBuffer)
   \<and> currentSwapChain (snd (beginOffscreenFrame (snd (beginFrame swapChain flags st))))
       = swapChain"
  by (simp add: beginOffscreenFrame_def beginFrame_def Let_def)

text \<open>
  C8 as stated fails: with a frame begun on the swapchain at address 0 and not ended,
  \<open>beginOffscreenFrame\<close> returns \<open>FrameOpSuccess\<close>.
\<close>

theorem beginOffscreenFrame_counterexample:
  "currentSwapChain
     (snd (beginFrame (Some 0) 0
        \<lparr> currentSwapChain = None, rhiP = None, mem = [0 \<mapsto> createSwapChain] \<rparr>)) = Some 0
   \<and> fst (fst (beginOffscreenFrame
        (snd (beginFrame (Some 0) 0
           \<lparr> currentSwapChain = None, rhiP = None, mem = [0 \<mapsto> createSwapChain] \<rparr>))))
      = FrameOpSuccess"
  by (simp add: beginOffscreenFrame_def beginFrame_def Let_def)

text \<open>
  C9, as the backend has it. When every readback of a batch reads a texture, or reads
  the swapchain while there is a current one, \<open>resourceUpdate\<close> returns, and each
  readback result is \<open>shaped\<close>: format and size are those of the texture at the mip
  level asked for, or \<open>RGBA8\<close> and the current size of the swapchain; every byte is
  0; and there are width times height times bytes per texel of them when that number
  is below \<open>2 ^ 31\<close>.
\<close>

theorem readback_shape:
  assumes "\<forall>op \<in> set ops. readable st op"
  shows "\<exists>ops' calls.
           resourceUpdate bytesPerTexel sizeForMipLevel st ops = Inr (ops', calls)
           \<and> length ops' = length ops
           \<and> (\<forall>i < length ops. \<forall>rb result. ops ! i = Read rb result \<longrightarrow>
                (\<exists>result'. ops' ! i = Read rb result'
                   \<and> shaped bytesPerTexel sizeForMipLevel st rb result'))"
proof -
  from assms obtain ops' calls where
    run: "resourceUpdate bytesPerTexel sizeForMipLevel st ops = Inr (ops', calls)"
      "length ops' = length ops"
    and each: "\<forall>i < length ops. \<forall>rb result. ops ! i = Read rb result \<longrightarrow>
      (\<exists>result'. ops' ! i = Read rb result'
         \<and> readback bytesPerTexel sizeForMipLevel st rb result = Inr result')"
    using resourceUpdate_nth [of ops st bytesPerTexel sizeForMipLevel] by blast
  have "\<exists>result'. ops' ! i = Read rb result'
          \<and> shaped bytesPerTexel sizeForMipLevel st rb result'"
    if "i < length ops" "ops ! i = Read rb result" for i rb result
  proof -
    from each that obtain result' where
      "ops' ! i = Read rb result'"
      "readback bytesPerTexel sizeForMipLevel st rb result = Inr result'"
      by blast
    then show ?thesis
      using readback_shaped by blast
  qed
  with run show ?thesis
    by blast
qed

text \<open>The readback of a texture of 2 by 1 texels: 8 bytes, all 0, and the callback called.\<close>

theorem readback_shape_witness:
  "readable \<lparr> currentSwapChain = None, rhiP = None, mem = Map.empty \<rparr>
     (Read \<lparr> rbd_texture = Some (createTexture RGBA8 \<lparr> width = 2, height = 1 \<rparr> 1 {}),
             rbd_layer = 0, rbd_level = 0 \<rparr>
           \<lparr> rr_completed = Some 7, rr_format = UnknownFormat,
             rr_pixelSize = QSize_default, rr_data = [5] \<rparr>)
   \<and> resourceUpdate fourBytesPerTexel sizeOfLevel0
        \<lparr> currentSwapChain = None, rhiP = None, mem = Map.empty \<rparr>
        [Read \<lparr> rbd_texture = Some (createTexture RGBA8 \<lparr> width = 2, height = 1 \<rparr> 1 {}),
                rbd_layer = 0, rbd_level = 0 \<rparr>
              \<lparr> rr_completed = Some 7, rr_format = UnknownFormat,
                rr_pixelSize = QSize_default, rr_data = [5] \<rparr>]
      = Inr ([Read \<lparr> rbd_texture = Some (createTexture RGBA8 \<lparr> width = 2, height = 1 \<rparr> 1 {}),
                      rbd_layer = 0, rbd_level = 0 \<rparr>
                    \<lparr> rr_completed = Some 7, rr_format = RGBA8,
                      rr_pixelSize = \<lparr> width = 2, height = 1 \<rparr>,
                      rr_data = [0, 0, 0, 0, 0, 0, 0, 0] \<rparr>], [7])
   \<and> shaped fourBytesPerTexel sizeOfLevel0
        \<lparr> currentSwapChain = None, rhiP = None, mem = Map.empty \<rparr>
        \<lparr> rbd_texture = Some (createTexture RGBA8 \<lparr> width = 2, height = 1 \<rparr> 1 {}),
          rbd_layer = 0, rbd_level = 0 \<rparr>
        \<lparr> rr_completed = Some 7, rr_format = RGBA8,
          rr_pixelSize = \<lparr> width = 2, height = 1 \<rparr>,
          rr_data = [0, 0, 0, 0, 0, 0, 0, 0] \<rparr>"
  using readback_shape
    [of "[Read \<lparr> rbd_texture = Some (createTexture RGBA8 \<lparr> width = 2, height = 1 \<rparr> 1 {}),
                 rbd_layer = 0, rbd_level = 0 \<rparr>
               \<lparr> rr_completed = Some 7, rr_format = UnknownFormat,
                 rr_pixelSize = QSize_default, rr_data = [5] \<rparr>]"
        "\<lparr> currentSwapChain = None, rhiP = None, mem = Map.empty \<rparr>"
        fourBytesPerTexel sizeOfLevel0]
  by (simp add: readable_def readback_def createTexture_def fourBytesPerTexel_def
        sizeOfLevel0_def textureFormatInfo_def fill_def eval_nat_numeral)

text \<open>
  C9 as stated fails: the readback of a texture of 65536 by 65536 texels of 4 bytes
  has no bytes at all, not 17179869184, since the size in bytes is a \<open>quint32\<close>.
\<close>

theorem readback_shape_counterexample:
  "resourceUpdate fourBytesPerTexel sizeOfLevel0
     \<lparr> currentSwapChain = None, rhiP = None, mem = Map.empty \<rparr>
     [Read \<lparr> rbd_texture = Some (createTexture RGBA8 \<lparr> width = 65536, height = 65536 \<rparr> 1 {}),
             rbd_layer = 0, rbd_level = 0 \<rparr>
           \<lparr> rr_completed = None, rr_format = UnknownFormat,
             rr_pixelSize = QSize_default, rr_data = [] \<rparr>]
   = Inr ([Read \<lparr> rbd_texture =
                     Some (createTexture RGBA8 \<lparr> width = 65536, height = 65536 \<rparr> 1 {}),
                   rbd_layer = 0, rbd_level = 0 \<rparr>
                 \<lparr> rr_completed = None, rr_format = RGBA8,
                   rr_pixelSize = \<lparr> width = 65536, height = 65536 \<rparr>, rr_data = [] \<rparr>], [])
   \<and> int (length ([] :: 8 word list)) \<noteq> 65536 * 65536 * fourBytesPerTexel RGBA8"
  by (simp add: readback_def createTexture_def fourBytesPerTexel_def sizeOfLevel0_def
        textureFormatInfo_def fill_def)

text \<open>
  C10. \<open>surfacePixelSize\<close> is 1280 by 720 for every state of the swapchain, and
  after \<open>buildOrResize\<close> the current size of the swapchain and the size of its render
  target are both 1280 by 720.
\<close>

theorem swapchain_size_constant:
  "surfacePixelSize sc = \<lparr> width = 1280, height = 720 \<rparr>
   \<and> sc_m_currentPixelSize (fst (snd (buildOrResize sc p))) = \<lparr> width = 1280, height = 720 \<rparr>
   \<and> rtd_pixelSize (sc_rt_d (fst (snd (buildOrResize sc p))))
       = \<lparr> width = 1280, height = 720 \<rparr>"
  by (simp add: surfacePixelSize_def buildOrResize_def Let_def)

end
